theory Spec2Isabelle
  imports Complex_Main
begin

section \<open>JavaScript values of the request and response objects\<close>

text \<open>
  A field of \<^verbatim>\<open>req.body\<close>, of \<^verbatim>\<open>req.query\<close> or of a parsed JSON reply is absent
  (\<^verbatim>\<open>undefined\<close>), \<^verbatim>\<open>null\<close> or a string. Strings are lists of code units below 256.
  Truthiness is the one of JavaScript: of these values only a non-empty string is truthy.
\<close>

datatype jsfield = Undefined | Null | Str string

fun truthy :: "jsfield \<Rightarrow> bool" where
  "truthy (Str s) = (s \<noteq> [])"
| "truthy _ = False"

text \<open>\<^verbatim>\<open>a || b\<close>: the left operand when it is truthy, the right operand otherwise.\<close>

definition jsor :: "jsfield \<Rightarrow> jsfield \<Rightarrow> jsfield" where
  "jsor a b = (if truthy a then a else b)"

text \<open>
  A Number: \<^verbatim>\<open>NaN\<close>, an infinity, the negative zero, or a finite value, which is a
  rational (\<open>Fin 0\<close> is the positive zero).
\<close>

datatype jsnum = NaN | Fin rat | NegZero | PosInfinity | NegInfinity

section \<open>The schema (shared/schema.ts)\<close>

datatype issueType = Pothole | Garbage | Streetlight | WaterLeakage | RoadDamage | Other

datatype issueStatus = Submitted | Acknowledged | InProgress | Resolved | Rejected

datatype priority = Low | Medium | High | Critical

datatype language = En | Hi | Mr

text \<open>The labels of the four \<^verbatim>\<open>pgEnum\<close>s; any other string is rejected by the column.\<close>

definition issueTypeEnum :: "string \<Rightarrow> issueType option" where
  "issueTypeEnum s =
     (if s = ''pothole'' then Some Pothole
      else if s = ''garbage'' then Some Garbage
      else if s = ''streetlight'' then Some Streetlight
      else if s = ''water_leakage'' then Some WaterLeakage
      else if s = ''road_damage'' then Some RoadDamage
      else if s = ''other'' then Some Other
      else None)"

definition issueStatusEnum :: "string \<Rightarrow> issueStatus option" where
  "issueStatusEnum s =
     (if s = ''submitted'' then Some Submitted
      else if s = ''acknowledged'' then Some Acknowledged
      else if s = ''in_progress'' then Some InProgress
      else if s = ''resolved'' then Some Resolved
      else if s = ''rejected'' then Some Rejected
      else None)"

definition priorityEnum :: "string \<Rightarrow> priority option" where
  "priorityEnum s =
     (if s = ''low'' then Some Low
      else if s = ''medium'' then Some Medium
      else if s = ''high'' then Some High
      else if s = ''critical'' then Some Critical
      else None)"

definition languageEnum :: "string \<Rightarrow> language option" where
  "languageEnum s =
     (if s = ''en'' then Some En
      else if s = ''hi'' then Some Hi
      else if s = ''mr'' then Some Mr
      else None)"

text \<open>
  The result of \<^verbatim>\<open>analyzeIssueImage\<close> (interface \<^verbatim>\<open>IssueDetectionResult\<close>); it is stored
  as it is in the \<^verbatim>\<open>jsonb\<close> column \<^verbatim>\<open>ai_detection_result\<close>.
\<close>

record IssueDetectionResult =
  det_issueType :: jsfield
  det_confidence :: rat
  det_description :: jsfield
  det_severity :: jsfield
  det_suggestedDepartment :: jsfield

text \<open>
  A row of table \<^verbatim>\<open>issues\<close>. A nullable column is an option (\<open>None\<close> is SQL NULL);
  timestamps are milliseconds since the epoch, as \<^verbatim>\<open>Date.getTime()\<close> reads them.
\<close>

record issue =
  id' :: string
  reporterId :: "string option"
  title :: string
  description :: "string option"
  issueType :: issueType
  priority :: "priority option"
  status :: "issueStatus option"
  location :: string
  latitude :: "jsnum option"
  longitude :: "jsnum option"
  address :: "string option"
  ward :: "string option"
  assignedDepartment :: "string option"
  assignedTo :: "string option"
  photoUrl :: "string option"
  audioUrl :: "string option"
  transcription :: "string option"
  aiDetectionResult :: "IssueDetectionResult option"
  aiConfidence :: "jsnum option"
  estimatedResolutionDays :: "int option"
  actualResolutionDate :: "int option"
  smsNotificationSent :: "bool option"
  language :: "language option"
  createdAt :: "int option"
  updatedAt :: "int option"

text \<open>A row of table \<^verbatim>\<open>issue_status_history\<close>.\<close>

record issueStatusHistory =
  h_id :: string
  h_issueId :: "string option"
  h_status :: issueStatus
  h_notes :: "string option"
  h_updatedBy :: "string option"
  h_createdAt :: "int option"

text \<open>
  The database: the ids of table \<^verbatim>\<open>users\<close>, and the rows of \<^verbatim>\<open>issues\<close> and of
  \<^verbatim>\<open>issue_status_history\<close> in insertion order.
\<close>

record db =
  users :: "string list"
  issues :: "issue list"
  history :: "issueStatusHistory list"

text \<open>What a statement that the database rejects throws.\<close>

datatype dbError = InvalidEnumValue | NotNullViolation | ForeignKeyViolation | NumericValueOutOfRange

section \<open>The storage (server/storage.ts)\<close>

text \<open>
  The object the status handler passes to \<^verbatim>\<open>updateIssue\<close>: \<^verbatim>\<open>status\<close> is always a key,
  the other three only when the handler sets them (\<open>Undefined\<close> and \<open>None\<close>: not set).
\<close>

record updateData =
  u_status :: jsfield
  u_assignedDepartment :: jsfield
  u_assignedTo :: jsfield
  u_actualResolutionDate :: "int option"

text \<open>
  What \<^verbatim>\<open>.set\<close> does with one key: \<^verbatim>\<open>undefined\<close> is skipped, \<^verbatim>\<open>null\<close> writes NULL,
  a string writes the string.
\<close>

fun setColumn :: "jsfield \<Rightarrow> string option \<Rightarrow> string option" where
  "setColumn Undefined old = old"
| "setColumn Null old = None"
| "setColumn (Str s) old = Some s"

text \<open>The same for the enum column \<^verbatim>\<open>status\<close>, which rejects a string that is no label.\<close>

fun setStatus :: "jsfield \<Rightarrow> dbError + (issueStatus option \<Rightarrow> issueStatus option)" where
  "setStatus Undefined = Inr (\<lambda>old. old)"
| "setStatus Null = Inr (\<lambda>old. None)"
| "setStatus (Str s) =
     (case issueStatusEnum s of
        None \<Rightarrow> Inl InvalidEnumValue
      | Some st \<Rightarrow> Inr (\<lambda>old. Some st))"

text \<open>
  \<^verbatim>\<open>updateIssue(id, updates)\<close>: \<^verbatim>\<open>update(issues).set({...updates, updatedAt: new Date()})
  .where(eq(issues.id, id)).returning()\<close>, and the first returned row, \<^verbatim>\<open>undefined\<close>
  (\<open>None\<close>) when no row has the id. \<open>now\<close> is the \<^verbatim>\<open>new Date()\<close> read here.
\<close>

definition applyUpdates :: "int \<Rightarrow> (issueStatus option \<Rightarrow> issueStatus option) \<Rightarrow> updateData \<Rightarrow> issue \<Rightarrow> issue" where
  "applyUpdates now st updates i =
     i\<lparr>status := st (status i),
       assignedDepartment := setColumn (u_assignedDepartment updates) (assignedDepartment i),
       assignedTo := setColumn (u_assignedTo updates) (assignedTo i),
       actualResolutionDate :=
         (case u_actualResolutionDate updates of
            None \<Rightarrow> actualResolutionDate i
          | Some d \<Rightarrow> Some d),
       updatedAt := Some now\<rparr>"

definition updateIssue :: "int \<Rightarrow> db \<Rightarrow> string \<Rightarrow> updateData \<Rightarrow> dbError + (issue option \<times> db)" where
  "updateIssue now d rid updates =
     (case setStatus (u_status updates) of
        Inl e \<Rightarrow> Inl e
      | Inr st \<Rightarrow>
          (let rows = map (\<lambda>i. if id' i = rid then applyUpdates now st updates i else i) (issues d);
               updatedIssue = (case filter (\<lambda>i. id' i = rid) rows of [] \<Rightarrow> None | x # _ \<Rightarrow> Some x)
           in Inr (updatedIssue, d\<lparr>issues := rows\<rparr>)))"

text \<open>The object passed to \<^verbatim>\<open>addStatusHistory\<close>.\<close>

record insertHistory =
  n_issueId :: jsfield
  n_status :: jsfield
  n_notes :: jsfield
  n_updatedBy :: jsfield

text \<open>The value an insert writes for a key: \<^verbatim>\<open>undefined\<close> and \<^verbatim>\<open>null\<close> both give NULL.\<close>

fun columnValue :: "jsfield \<Rightarrow> string option" where
  "columnValue (Str s) = Some s"
| "columnValue _ = None"

text \<open>A \<^verbatim>\<open>references\<close> column holds NULL or a key of the referenced table.\<close>

fun references :: "string list \<Rightarrow> string option \<Rightarrow> bool" where
  "references keys None = True"
| "references keys (Some k) = (k \<in> set keys)"

text \<open>
  \<^verbatim>\<open>addStatusHistory(history)\<close>: \<^verbatim>\<open>insert(issueStatusHistory).values(history).returning()\<close>.
  The table declares \<^verbatim>\<open>status\<close> as a \<^verbatim>\<open>notNull\<close> enum, and \<^verbatim>\<open>issue_id\<close>, \<^verbatim>\<open>updated_by\<close>
  as references to \<^verbatim>\<open>issues.id\<close>, \<^verbatim>\<open>users.id\<close>; \<open>uuid\<close> and \<open>now\<close> are the column defaults
  \<^verbatim>\<open>gen_random_uuid()\<close> and \<^verbatim>\<open>now()\<close>.
\<close>

definition addStatusHistory :: "string \<Rightarrow> int \<Rightarrow> db \<Rightarrow> insertHistory \<Rightarrow> dbError + (issueStatusHistory \<times> db)" where
  "addStatusHistory uuid now d h =
     (case columnValue (n_status h) of
        None \<Rightarrow> Inl NotNullViolation
      | Some s \<Rightarrow>
          (case issueStatusEnum s of
             None \<Rightarrow> Inl InvalidEnumValue
           | Some st \<Rightarrow>
               if \<not> references (map id' (issues d)) (columnValue (n_issueId h)) then Inl ForeignKeyViolation
               else if \<not> references (users d) (columnValue (n_updatedBy h)) then Inl ForeignKeyViolation
               else
                 (let newHistory =
                        \<lparr>h_id = uuid,
                         h_issueId = columnValue (n_issueId h),
                         h_status = st,
                         h_notes = columnValue (n_notes h),
                         h_updatedBy = columnValue (n_updatedBy h),
                         h_createdAt = Some now\<rparr>
                  in Inr (newHistory, d\<lparr>history := history d @ [newHistory]\<rparr>))))"

section \<open>The status route (PATCH /api/issues/:id/status)\<close>

text \<open>
  What the handlers take from outside: the clocks, the generated keys, and what a \<^verbatim>\<open>real\<close>
  column of the database does with a Number written to it: it rejects the Number, or it
  holds a single-precision value that the returned row gives back as a Number.
\<close>

record env =
  e_handlerNow :: int
  e_storageNow :: int
  e_issueUuid :: string
  e_issueNow :: int
  e_historyUuid :: string
  e_historyNow :: int
  e_realColumn :: "jsnum \<Rightarrow> dbError + jsnum"

record statusBody =
  b_status :: jsfield
  b_notes :: jsfield
  b_updatedBy :: jsfield
  b_assignedDepartment :: jsfield
  b_assignedTo :: jsfield

datatype failure = ValidationFailed | DbFailed dbError

datatype json = IssueJson "issue option" | MessageJson string | ErrorJson string failure

record response =
  statusCode :: nat
  body :: json

text \<open>
  The object \<^verbatim>\<open>updateData\<close> of the handler: \<^verbatim>\<open>{ status }\<close>, then the two guarded
  assignments, then the resolution stamp.
\<close>

definition statusUpdateData :: "int \<Rightarrow> statusBody \<Rightarrow> updateData" where
  "statusUpdateData now b =
     \<lparr>u_status = b_status b,
      u_assignedDepartment = (if truthy (b_assignedDepartment b) then b_assignedDepartment b else Undefined),
      u_assignedTo = (if truthy (b_assignedTo b) then b_assignedTo b else Undefined),
      u_actualResolutionDate = (if b_status b = Str ''resolved'' then Some now else None)\<rparr>"

text \<open>
  The handler: the update, then the history row, then \<^verbatim>\<open>res.json(updatedIssue)\<close>; whatever
  either storage call throws is caught and answered with status 500. The two writes are
  separate statements: what the first wrote stays when the second throws.
\<close>

definition patchIssueStatus :: "env \<Rightarrow> db \<Rightarrow> string \<Rightarrow> statusBody \<Rightarrow> response \<times> db" where
  "patchIssueStatus e d rid b =
     (case updateIssue (e_storageNow e) d rid (statusUpdateData (e_handlerNow e) b) of
        Inl err \<Rightarrow> (\<lparr>statusCode = 500, body = MessageJson ''Failed to update issue status''\<rparr>, d)
      | Inr (updatedIssue, d1) \<Rightarrow>
          (case addStatusHistory (e_historyUuid e) (e_historyNow e) d1
                  \<lparr>n_issueId = Str rid, n_status = b_status b, n_notes = b_notes b, n_updatedBy = b_updatedBy b\<rparr> of
             Inl err \<Rightarrow> (\<lparr>statusCode = 500, body = MessageJson ''Failed to update issue status''\<rparr>, d1)
           | Inr (newHistory, d2) \<Rightarrow> (\<lparr>statusCode = 200, body = IssueJson updatedIssue\<rparr>, d2)))"

section \<open>The statistics (getIssueStats in server/storage.ts)\<close>

record issueStats =
  total :: nat
  pending :: nat
  inProgress :: nat
  resolved :: nat
  avgResolutionDays :: rat

text \<open>\<^verbatim>\<open>new Date(x).getTime()\<close> for a column value: \<^verbatim>\<open>new Date(null)\<close> is the epoch.\<close>

fun getTime :: "int option \<Rightarrow> int" where
  "getTime (Some t) = t"
| "getTime None = 0"

definition mathCeil :: "rat \<Rightarrow> int" where
  "mathCeil x = \<lceil>x\<rceil>"

text \<open>\<^verbatim>\<open>Math.round\<close>: the nearest integer, a tie going up.\<close>

definition mathRound :: "rat \<Rightarrow> int" where
  "mathRound x = \<lfloor>x + 1 / 2\<rfloor>"

definition diffDays :: "issue \<Rightarrow> int" where
  "diffDays i =
     mathCeil (of_int (getTime (actualResolutionDate i) - getTime (createdAt i)) / (1000 * 60 * 60 * 24))"

text \<open>
  \<^verbatim>\<open>getIssueStats(filters)\<close>; \<open>department\<close> is \<^verbatim>\<open>filters?.department\<close>. The where clause
  \<^verbatim>\<open>eq(issues.assignedDepartment, filters.department)\<close> keeps the rows whose column is not
  NULL and equals the string. The arithmetic on Numbers is exact here.
\<close>

definition getIssueStats :: "db \<Rightarrow> jsfield \<Rightarrow> issueStats" where
  "getIssueStats d department =
     (let allIssues =
            (if truthy department
             then filter (\<lambda>i. assignedDepartment i = columnValue department) (issues d)
             else issues d);
          resolvedIssues =
            filter (\<lambda>i. status i = Some Resolved \<and> actualResolutionDate i \<noteq> None) allIssues;
          totalDays = foldl (\<lambda>acc i. acc + diffDays i) 0 resolvedIssues
      in \<lparr>total = length allIssues,
          pending = length (filter (\<lambda>i. status i = Some Submitted \<or> status i = Some Acknowledged) allIssues),
          inProgress = length (filter (\<lambda>i. status i = Some InProgress) allIssues),
          resolved = length (filter (\<lambda>i. status i = Some Resolved) allIssues),
          avgResolutionDays =
            (if length resolvedIssues > 0
             then of_int (mathRound ((of_int totalDays / of_int (int (length resolvedIssues))) * 10)) / 10
             else 0)\<rparr>)"

subsection \<open>The statistics as the specification words them\<close>

text \<open>
  The issues in scope: all of them when no department or an empty name is given, and
  otherwise those assigned to the named department.
\<close>

fun inScope :: "string option \<Rightarrow> issue list \<Rightarrow> issue list" where
  "inScope None xs = xs"
| "inScope (Some name) xs =
     (if name = [] then xs else filter (\<lambda>i. assignedDepartment i = Some name) xs)"

definition countStatus :: "issueStatus \<Rightarrow> issue list \<Rightarrow> nat" where
  "countStatus st xs = length (filter (\<lambda>i. status i = Some st) xs)"

text \<open>The issues that count for the average: resolved, with a resolution date.\<close>

definition qualifying :: "issue list \<Rightarrow> issue list" where
  "qualifying xs = filter (\<lambda>i. status i = Some Resolved \<and> actualResolutionDate i \<noteq> None) xs"

text \<open>
  The duration in days between two timestamps in milliseconds:
  \<open>ceil((resolution - creation) / 86400 s)\<close>.
\<close>

definition resolutionDays :: "int \<Rightarrow> int \<Rightarrow> int" where
  "resolutionDays creation resolution = \<lceil>(of_int (resolution - creation) :: rat) / 86400000\<rceil>"

definition meanDays :: "issue list \<Rightarrow> rat" where
  "meanDays xs =
     of_int (sum_list (map (\<lambda>i. resolutionDays (the (createdAt i)) (the (actualResolutionDate i))) xs))
       / of_int (int (length xs))"

text \<open>The department of a request, as the field \<^verbatim>\<open>filters.department\<close>.\<close>

fun departmentField :: "string option \<Rightarrow> jsfield" where
  "departmentField None = Undefined"
| "departmentField (Some name) = Str name"

section \<open>The AI collaborators (server/openai.ts)\<close>

text \<open>
  A call of the completion or transcription service either throws or returns. The three
  functions below take what the service replies as their argument; \<open>Throws\<close> also stands for
  a reply that \<^verbatim>\<open>JSON.parse\<close> rejects. Each function catches whatever is thrown and throws
  an \<^verbatim>\<open>Error\<close> of its own.
\<close>

datatype 'a outcome = Throws | Returns 'a

text \<open>The object \<^verbatim>\<open>result\<close> parsed from the reply of the vision model.\<close>

record rawDetection =
  r_issueType :: jsfield
  r_confidence :: "rat option"
  r_description :: jsfield
  r_severity :: jsfield
  r_suggestedDepartment :: jsfield

text \<open>\<^verbatim>\<open>result.confidence || 0\<close>: an absent confidence, like the number 0, gives 0.\<close>

fun numberOr :: "rat option \<Rightarrow> rat \<Rightarrow> rat" where
  "numberOr None b = b"
| "numberOr (Some a) b = (if a \<noteq> 0 then a else b)"

definition analyzeIssueImage :: "rawDetection outcome \<Rightarrow> IssueDetectionResult outcome" where
  "analyzeIssueImage reply =
     (case reply of
        Throws \<Rightarrow> Throws
      | Returns result \<Rightarrow>
          Returns
            \<lparr>det_issueType = jsor (r_issueType result) (Str ''other''),
             det_confidence = max 0 (min 1 (numberOr (r_confidence result) 0)),
             det_description = jsor (r_description result) (Str ''Issue detected in image''),
             det_severity = jsor (r_severity result) (Str ''medium''),
             det_suggestedDepartment = jsor (r_suggestedDepartment result) (Str ''General Services'')\<rparr>)"

record transcriptionResult =
  t_text :: string
  t_language :: jsfield

text \<open>
  \<^verbatim>\<open>transcribeAudio\<close>: the reply is the transcribed text together with the field
  \<^verbatim>\<open>language\<close> of the language detection.
\<close>

definition transcribeAudio :: "(string \<times> jsfield) outcome \<Rightarrow> transcriptionResult outcome" where
  "transcribeAudio reply =
     (case reply of
        Throws \<Rightarrow> Throws
      | Returns (text, lang) \<Rightarrow> Returns \<lparr>t_text = text, t_language = jsor lang (Str ''en'')\<rparr>)"

record rawExtraction =
  x_issueType :: jsfield
  x_location :: jsfield
  x_description :: jsfield
  x_priority :: jsfield

record extractedInfo =
  ex_issueType :: jsfield
  ex_location :: jsfield
  ex_description :: jsfield
  ex_priority :: jsfield

text \<open>\<^verbatim>\<open>extractIssueFromText(text, language)\<close>; the language only enters the prompt.\<close>

definition extractIssueFromText :: "string \<Rightarrow> jsfield \<Rightarrow> rawExtraction outcome \<Rightarrow> extractedInfo outcome" where
  "extractIssueFromText text lang reply =
     (case reply of
        Throws \<Rightarrow> Throws
      | Returns result \<Rightarrow>
          Returns
            \<lparr>ex_issueType = jsor (x_issueType result) (Str ''other''),
             ex_location = x_location result,
             ex_description = jsor (x_description result) (Str text),
             ex_priority = jsor (x_priority result) (Str ''medium'')\<rparr>)"

section \<open>Numbers and parseFloat\<close>

text \<open>
  A Number is a binary floating-point value of 53 bits of precision. \<open>roundBinary p emin
  emax\<close> rounds a rational to the nearest value of a binary format with precision \<open>p\<close>
  and exponents from \<open>emin\<close> to \<open>emax\<close>, a tie going to the even significand: a value too
  large becomes an infinity, a value too small a zero of its sign.
\<close>

definition roundHalfEven :: "rat \<Rightarrow> int" where
  "roundHalfEven x =
     (let f = \<lfloor>x\<rfloor>; r = x - of_int f
      in if r < 1 / 2 then f else if 1 / 2 < r then f + 1 else if even f then f else f + 1)"

text \<open>The number of binary digits of a positive integer.\<close>

function bitLength :: "int \<Rightarrow> int" where
  "bitLength n = (if n \<le> 0 then 0 else 1 + bitLength (n div 2))"
  by pat_completeness auto
termination
  by (relation "measure nat") auto

declare bitLength.simps [simp del]

text \<open>A power with an exponent that is not negative, by repeated squaring.\<close>

function pow :: "rat \<Rightarrow> int \<Rightarrow> rat" where
  "pow b n =
     (if n \<le> 0 then 1
      else (let h = pow b (n div 2) in if even n then h * h else b * h * h))"
  by pat_completeness auto
termination
  by (relation "measure (\<lambda>(b, n). nat n)") auto

declare pow.simps [simp del]

definition pow2 :: "int \<Rightarrow> rat" where
  "pow2 e = (if 0 \<le> e then pow 2 e else 1 / pow 2 (- e))"

text \<open>For a positive rational \<open>x\<close>, the exponent \<open>e\<close> with \<open>2^e \<le> x < 2^(e+1)\<close>.\<close>

definition binaryExponent :: "rat \<Rightarrow> int" where
  "binaryExponent x =
     (let e0 = bitLength (fst (quotient_of x)) - bitLength (snd (quotient_of x))
      in if pow2 e0 \<le> x then e0 else e0 - 1)"

definition roundBinary :: "nat \<Rightarrow> int \<Rightarrow> int \<Rightarrow> rat \<Rightarrow> jsnum" where
  "roundBinary p emin emax x =
     (if x = 0 then Fin 0
      else
        (let a = \<bar>x\<bar>;
             e = max (binaryExponent a) emin;
             q = pow2 (e - int p + 1);
             y = of_int (roundHalfEven (a / q)) * q
         in if pow2 (emax + 1) \<le> y then (if x < 0 then NegInfinity else PosInfinity)
            else if y = 0 then (if x < 0 then NegZero else Fin 0)
            else Fin (if x < 0 then - y else y)))"

text \<open>The Number value of a mathematical value.\<close>

definition toNumber :: "rat \<Rightarrow> jsnum" where
  "toNumber x = roundBinary 53 (- 1022) 1023 x"

text \<open>
  \<^verbatim>\<open>parseFloat\<close> skips leading white space and reads the longest prefix that is a decimal
  literal: an optional sign, then \<^verbatim>\<open>Infinity\<close> or digits with an optional fraction and an
  optional exponent. Without such a prefix the result is \<^verbatim>\<open>NaN\<close>; otherwise it is the
  Number value of the literal.
\<close>

definition isWhiteSpace :: "char \<Rightarrow> bool" where
  "isWhiteSpace c = ((of_char c :: nat) \<in> {9, 10, 11, 12, 13, 32, 160})"

definition isDigit :: "char \<Rightarrow> bool" where
  "isDigit c = (48 \<le> (of_char c :: nat) \<and> (of_char c :: nat) \<le> 57)"

definition digitsValue :: "string \<Rightarrow> int" where
  "digitsValue ds = foldl (\<lambda>a c. 10 * a + (of_char c - 48)) 0 ds"

text \<open>The exponent part at the head of a string, and 0 when there is none.\<close>

definition exponentPart :: "string \<Rightarrow> int" where
  "exponentPart s =
     (case s of
        [] \<Rightarrow> 0
      | c # r \<Rightarrow>
          if c = CHR ''e'' \<or> c = CHR ''E'' then
            (case r of
               [] \<Rightarrow> 0
             | sg # r' \<Rightarrow>
                 if sg = CHR ''-'' then
                   (if takeWhile isDigit r' = [] then 0 else - digitsValue (takeWhile isDigit r'))
                 else if sg = CHR ''+'' then digitsValue (takeWhile isDigit r')
                 else digitsValue (takeWhile isDigit r))
          else 0)"

definition scale10 :: "rat \<Rightarrow> int \<Rightarrow> rat" where
  "scale10 m ex = (if 0 \<le> ex then m * pow 10 ex else m / pow 10 (- ex))"

definition unsignedLiteral :: "string \<Rightarrow> jsnum" where
  "unsignedLiteral s =
     (if take 8 s = ''Infinity'' then PosInfinity
      else
        (let intDigits = takeWhile isDigit s;
             afterInt = dropWhile isDigit s;
             hasDot = (case afterInt of [] \<Rightarrow> False | c # r \<Rightarrow> c = CHR ''.'');
             fracDigits = (if hasDot then takeWhile isDigit (tl afterInt) else []);
             afterFrac = (if hasDot then dropWhile isDigit (tl afterInt) else afterInt)
         in if intDigits = [] \<and> fracDigits = [] then NaN
            else toNumber (scale10 (of_int (digitsValue (intDigits @ fracDigits)) / 10 ^ length fracDigits)
                             (exponentPart afterFrac))))"

fun negate :: "jsnum \<Rightarrow> jsnum" where
  "negate NaN = NaN"
| "negate (Fin r) = (if r = 0 then NegZero else Fin (- r))"
| "negate NegZero = Fin 0"
| "negate PosInfinity = NegInfinity"
| "negate NegInfinity = PosInfinity"

definition parseFloat :: "string \<Rightarrow> jsnum" where
  "parseFloat s =
     (case dropWhile isWhiteSpace s of
        [] \<Rightarrow> NaN
      | c # r \<Rightarrow>
          if c = CHR ''-'' then negate (unsignedLiteral r)
          else if c = CHR ''+'' then unsignedLiteral r
          else unsignedLiteral (c # r))"

subsection \<open>Numbers as text\<close>

text \<open>The number of decimal digits of a positive integer.\<close>

function digitCount :: "int \<Rightarrow> int" where
  "digitCount n = (if n \<le> 0 then 0 else 1 + digitCount (n div 10))"
  by pat_completeness auto
termination
  by (relation "measure nat") auto

declare digitCount.simps [simp del]

text \<open>For a positive rational \<open>x\<close>, the exponent \<open>e\<close> with \<open>10^e \<le> x < 10^(e+1)\<close>.\<close>

definition decimalExponent :: "rat \<Rightarrow> int" where
  "decimalExponent x =
     (let e0 = digitCount (fst (quotient_of x)) - digitCount (snd (quotient_of x))
      in if scale10 1 e0 \<le> x then e0 else e0 - 1)"

text \<open>
  The two decimals nearest to a positive \<open>y\<close> whose last digit has the weight \<open>10^ex\<close>,
  the nearer one first and the one with the even last digit first of two as near.
\<close>

definition nearestDecimals :: "rat \<Rightarrow> int \<Rightarrow> rat \<times> rat" where
  "nearestDecimals y ex =
     (let u = scale10 1 ex;
          f = \<lfloor>y / u\<rfloor>;
          lo = of_int f * u;
          hi = of_int \<lceil>y / u\<rceil> * u
      in if y - lo < hi - y \<or> (y - lo = hi - y \<and> even f) then (lo, hi) else (hi, lo))"

text \<open>
  The decimal a positive value \<open>y\<close> of a binary format is written as: the one with the
  fewest significant digits that the format reads back as \<open>y\<close>, and the nearest to \<open>y\<close>
  of these. These are the digits of \<^verbatim>\<open>Number.prototype.toString\<close>, and of the shortest
  text that a floating-point column is printed with. \<open>shortestFrom\<close> tries \<open>k\<close>, \<open>k + 1\<close>,
  ... up to \<open>n\<close> significant digits; \<open>n\<close> digits are enough for the format.
\<close>

function shortestFrom :: "(rat \<Rightarrow> bool) \<Rightarrow> rat \<Rightarrow> int \<Rightarrow> int \<Rightarrow> int \<Rightarrow> rat" where
  "shortestFrom reads y e k n =
     (if n < k then y
      else
        (let ds = nearestDecimals y (e - k + 1)
         in if reads (fst ds) then fst ds
            else if reads (snd ds) then snd ds
            else shortestFrom reads y e (k + 1) n))"
  by pat_completeness auto
termination
  by (relation "measure (\<lambda>(reads, y, e, k, n). nat (n + 1 - k))") auto

declare shortestFrom.simps [simp del]

definition shortestDecimal :: "nat \<Rightarrow> int \<Rightarrow> int \<Rightarrow> int \<Rightarrow> rat \<Rightarrow> rat" where
  "shortestDecimal p emin emax n y =
     shortestFrom (\<lambda>c. roundBinary p emin emax c = Fin y) y (decimalExponent y) 1 n"

section \<open>The submission route (POST /api/issues)\<close>

text \<open>The fields of \<^verbatim>\<open>req.body\<close> the handler reads.\<close>

record issueBody =
  p_title :: jsfield
  p_description :: jsfield
  p_issueType :: jsfield
  p_priority :: jsfield
  p_location :: jsfield
  p_latitude :: jsfield
  p_longitude :: jsfield
  p_address :: jsfield
  p_ward :: jsfield
  p_assignedDepartment :: jsfield
  p_reporterId :: jsfield
  p_photoUrl :: jsfield
  p_audioUrl :: jsfield
  p_language :: jsfield

text \<open>What the two services reply for an uploaded audio file.\<close>

record audioReplies =
  a_transcription :: "(string \<times> jsfield) outcome"
  a_extraction :: "rawExtraction outcome"

text \<open>
  A submission: the body, and for each uploaded file (\<open>None\<close>: no file) what the AI
  services reply for it. Reading and removing the uploaded files is taken to succeed.
\<close>

record submission =
  s_body :: issueBody
  s_photo :: "rawDetection outcome option"
  s_audio :: "audioReplies option"

text \<open>
  The photo block: \<^verbatim>\<open>aiDetectionResult\<close> starts as \<^verbatim>\<open>null\<close> and is assigned inside a
  \<^verbatim>\<open>try\<close> whose \<^verbatim>\<open>catch\<close> only logs.
\<close>

definition processPhoto :: "rawDetection outcome option \<Rightarrow> IssueDetectionResult option" where
  "processPhoto photo =
     (case photo of
        None \<Rightarrow> None
      | Some reply \<Rightarrow>
          (case analyzeIssueImage reply of
             Throws \<Rightarrow> None
           | Returns r \<Rightarrow> Some r))"

text \<open>
  The audio block, giving \<^verbatim>\<open>transcription\<close> and \<^verbatim>\<open>extractedInfo\<close>: the transcription is
  assigned before the extraction is called, inside the same \<^verbatim>\<open>try\<close>.
\<close>

definition processAudio :: "audioReplies option \<Rightarrow> jsfield \<times> extractedInfo option" where
  "processAudio audio =
     (case audio of
        None \<Rightarrow> (Null, None)
      | Some a \<Rightarrow>
          (case transcribeAudio (a_transcription a) of
             Throws \<Rightarrow> (Null, None)
           | Returns tr \<Rightarrow>
               (case extractIssueFromText (t_text tr) (t_language tr)
                       (a_extraction a) of
                  Throws \<Rightarrow> (Str (t_text tr), None)
                | Returns info \<Rightarrow> (Str (t_text tr), Some info))))"

text \<open>\<^verbatim>\<open>obj?.field\<close>: \<^verbatim>\<open>undefined\<close> when the object is \<^verbatim>\<open>null\<close>.\<close>

fun optChain :: "'a option \<Rightarrow> ('a \<Rightarrow> jsfield) \<Rightarrow> jsfield" where
  "optChain None f = Undefined"
| "optChain (Some x) f = f x"

text \<open>
  The object \<^verbatim>\<open>issueData\<close>, from the body and the handler's variables
  \<^verbatim>\<open>aiDetectionResult\<close>, \<^verbatim>\<open>transcription\<close> and \<^verbatim>\<open>extractedInfo\<close>.
\<close>

record issueData =
  d_title :: jsfield
  d_description :: jsfield
  d_issueType :: jsfield
  d_priority :: jsfield
  d_location :: jsfield
  d_latitude :: "jsnum option"
  d_longitude :: "jsnum option"
  d_address :: jsfield
  d_ward :: jsfield
  d_assignedDepartment :: jsfield
  d_reporterId :: jsfield
  d_photoUrl :: jsfield
  d_audioUrl :: jsfield
  d_transcription :: jsfield
  d_aiDetectionResult :: "IssueDetectionResult option"
  d_aiConfidence :: "rat option"
  d_language :: jsfield

text \<open>\<^verbatim>\<open>x ? parseFloat(x) : null\<close>.\<close>

definition coordinate :: "jsfield \<Rightarrow> jsnum option" where
  "coordinate x = (if truthy x then (case x of Str s \<Rightarrow> Some (parseFloat s) | _ \<Rightarrow> None) else None)"

text \<open>\<^verbatim>\<open>aiDetectionResult?.confidence || null\<close>: the number 0 is falsy.\<close>

definition confidenceOrNull :: "IssueDetectionResult option \<Rightarrow> rat option" where
  "confidenceOrNull ai =
     (case ai of
        None \<Rightarrow> None
      | Some r \<Rightarrow> if det_confidence r \<noteq> 0 then Some (det_confidence r) else None)"

definition issueData :: "issueBody \<Rightarrow> IssueDetectionResult option \<Rightarrow> jsfield \<Rightarrow> extractedInfo option \<Rightarrow> issueData" where
  "issueData b detection transcript extracted =
     \<lparr>d_title = jsor (p_title b) (jsor (optChain detection det_description)
                 (jsor (optChain extracted ex_description) (Str ''New Issue''))),
      d_description = jsor (p_description b) (jsor (optChain detection det_description)
                 (optChain extracted ex_description)),
      d_issueType = jsor (p_issueType b) (jsor (optChain detection det_issueType)
                 (jsor (optChain extracted ex_issueType) (Str ''other''))),
      d_priority = jsor (p_priority b) (jsor (optChain detection det_severity)
                 (jsor (optChain extracted ex_priority) (Str ''medium''))),
      d_location = jsor (p_location b) (jsor (optChain extracted ex_location) (Str '''')),
      d_latitude = coordinate (p_latitude b),
      d_longitude = coordinate (p_longitude b),
      d_address = jsor (p_address b) (Str ''''),
      d_ward = jsor (p_ward b) (Str ''''),
      d_assignedDepartment = jsor (p_assignedDepartment b)
                 (jsor (optChain detection det_suggestedDepartment) (Str '''')),
      d_reporterId = jsor (p_reporterId b) Null,
      d_photoUrl = jsor (p_photoUrl b) Null,
      d_audioUrl = jsor (p_audioUrl b) Null,
      d_transcription = transcript,
      d_aiDetectionResult = detection,
      d_aiConfidence = confidenceOrNull detection,
      d_language = jsor (p_language b) (Str ''en'')\<rparr>"

text \<open>The payload the handler builds for a submission.\<close>

definition submissionData :: "submission \<Rightarrow> issueData" where
  "submissionData req =
     issueData (s_body req) (processPhoto (s_photo req))
       (fst (processAudio (s_audio req))) (snd (processAudio (s_audio req)))"

subsection \<open>Validation and insertion\<close>

text \<open>
  \<^verbatim>\<open>insertIssueSchema.parse\<close>, the schema derived from table \<^verbatim>\<open>issues\<close>: \<^verbatim>\<open>title\<close>,
  \<^verbatim>\<open>issueType\<close> and \<^verbatim>\<open>location\<close> are required, an enum column takes one of its labels,
  a nullable column also takes \<^verbatim>\<open>null\<close> or nothing, and a \<^verbatim>\<open>real\<close> column takes a number
  from -8388608 to 8388607, which \<^verbatim>\<open>NaN\<close> and the infinities are not. \<open>True\<close>: the data is
  returned as it is; \<open>False\<close>: the parse throws.
\<close>

fun isString :: "jsfield \<Rightarrow> bool" where
  "isString (Str s) = True"
| "isString _ = False"

fun requiredEnum :: "(string \<Rightarrow> 'a option) \<Rightarrow> jsfield \<Rightarrow> bool" where
  "requiredEnum labels (Str s) = (labels s \<noteq> None)"
| "requiredEnum labels _ = False"

fun optionalEnum :: "(string \<Rightarrow> 'a option) \<Rightarrow> jsfield \<Rightarrow> bool" where
  "optionalEnum labels (Str s) = (labels s \<noteq> None)"
| "optionalEnum labels _ = True"

fun realNumber :: "jsnum \<Rightarrow> bool" where
  "realNumber (Fin r) = (- 8388608 \<le> r \<and> r \<le> 8388607)"
| "realNumber NegZero = True"
| "realNumber NaN = False"
| "realNumber PosInfinity = False"
| "realNumber NegInfinity = False"

fun optionalNumber :: "jsnum option \<Rightarrow> bool" where
  "optionalNumber None = True"
| "optionalNumber (Some x) = realNumber x"

definition insertIssueSchema :: "issueData \<Rightarrow> bool" where
  "insertIssueSchema data =
     (isString (d_title data)
      \<and> requiredEnum issueTypeEnum (d_issueType data)
      \<and> optionalEnum priorityEnum (d_priority data)
      \<and> isString (d_location data)
      \<and> optionalNumber (d_latitude data)
      \<and> optionalNumber (d_longitude data)
      \<and> optionalNumber (map_option Fin (d_aiConfidence data))
      \<and> optionalEnum languageEnum (d_language data))"

text \<open>
  The value an insert writes into an enum column with a default: the default for a key
  that is absent, NULL for \<^verbatim>\<open>null\<close>, the label otherwise.
\<close>

fun enumColumn :: "(string \<Rightarrow> 'a option) \<Rightarrow> 'a option \<Rightarrow> jsfield \<Rightarrow> dbError + 'a option" where
  "enumColumn labels dflt Undefined = Inr dflt"
| "enumColumn labels dflt Null = Inr None"
| "enumColumn labels dflt (Str s) =
     (case labels s of
        None \<Rightarrow> Inl InvalidEnumValue
      | Some v \<Rightarrow> Inr (Some v))"

text \<open>
  The value of a \<^verbatim>\<open>real\<close> column in the row an insert returns: NULL for \<^verbatim>\<open>null\<close>, and for
  a number what the column gives back for it, unless the column rejects the number.
\<close>

fun realValue :: "(jsnum \<Rightarrow> dbError + jsnum) \<Rightarrow> jsnum option \<Rightarrow> dbError + jsnum option" where
  "realValue col None = Inr None"
| "realValue col (Some x) =
     (case col x of
        Inl err \<Rightarrow> Inl err
      | Inr y \<Rightarrow> Inr (Some y))"

text \<open>
  \<^verbatim>\<open>createIssue(issue)\<close>: \<^verbatim>\<open>insert(issues).values(issue).returning()\<close>. The keys the
  payload does not have take their column defaults; \<^verbatim>\<open>title\<close>, \<^verbatim>\<open>issue_type\<close> and
  \<^verbatim>\<open>location\<close> are \<^verbatim>\<open>notNull\<close>, and \<^verbatim>\<open>reporter_id\<close> references \<^verbatim>\<open>users.id\<close>.
  \<open>col\<close> is the behaviour of the \<^verbatim>\<open>real\<close> columns. \<open>issueRow\<close> is the row returned, once
  the checked columns have their values.
\<close>

definition issueRow ::
  "string \<Rightarrow> int \<Rightarrow> issueData \<Rightarrow> string \<Rightarrow> issueType \<Rightarrow> priority option \<Rightarrow> string \<Rightarrow> language option
     \<Rightarrow> jsnum option \<Rightarrow> jsnum option \<Rightarrow> jsnum option \<Rightarrow> issue" where
  "issueRow uuid now data t ty pr loc lang lat lon conf =
     \<lparr>id' = uuid,
      reporterId = columnValue (d_reporterId data),
      title = t,
      description = columnValue (d_description data),
      issueType = ty,
      priority = pr,
      status = Some Submitted,
      location = loc,
      latitude = lat,
      longitude = lon,
      address = columnValue (d_address data),
      ward = columnValue (d_ward data),
      assignedDepartment = columnValue (d_assignedDepartment data),
      assignedTo = None,
      photoUrl = columnValue (d_photoUrl data),
      audioUrl = columnValue (d_audioUrl data),
      transcription = columnValue (d_transcription data),
      aiDetectionResult = d_aiDetectionResult data,
      aiConfidence = conf,
      estimatedResolutionDays = None,
      actualResolutionDate = None,
      smsNotificationSent = Some False,
      language = lang,
      createdAt = Some now,
      updatedAt = Some now\<rparr>"

definition createIssue ::
  "(jsnum \<Rightarrow> dbError + jsnum) \<Rightarrow> string \<Rightarrow> int \<Rightarrow> db \<Rightarrow> issueData \<Rightarrow> dbError + (issue \<times> db)" where
  "createIssue col uuid now d data =
     (case (enumColumn issueTypeEnum None (d_issueType data),
            enumColumn priorityEnum (Some Medium) (d_priority data),
            enumColumn languageEnum (Some En) (d_language data)) of
        (Inr ty, Inr pr, Inr lang) \<Rightarrow>
          (case (realValue col (d_latitude data), realValue col (d_longitude data),
                 realValue col (map_option Fin (d_aiConfidence data))) of
             (Inr lat, Inr lon, Inr conf) \<Rightarrow>
               (case (columnValue (d_title data), ty, columnValue (d_location data)) of
                  (Some t, Some ty', Some loc) \<Rightarrow>
                    if \<not> references (users d) (columnValue (d_reporterId data)) then Inl ForeignKeyViolation
                    else
                      (let newIssue = issueRow uuid now data t ty' pr loc lang lat lon conf
                       in Inr (newIssue, d\<lparr>issues := issues d @ [newIssue]\<rparr>))
                | _ \<Rightarrow> Inl NotNullViolation)
           | _ \<Rightarrow> Inl NumericValueOutOfRange)
      | _ \<Rightarrow> Inl InvalidEnumValue)"

text \<open>
  What the handler does with the payload: validate, insert the issue, insert the first
  history row, answer 201 with the new issue. Whatever is thrown on the way is caught and
  answered with status 500; what was written before stays.
\<close>

definition storeIssue :: "env \<Rightarrow> db \<Rightarrow> jsfield \<Rightarrow> issueData \<Rightarrow> response \<times> db" where
  "storeIssue e d reporter data =
     (if \<not> insertIssueSchema data
      then (\<lparr>statusCode = 500, body = ErrorJson ''Failed to create issue'' ValidationFailed\<rparr>, d)
      else
        (case createIssue (e_realColumn e) (e_issueUuid e) (e_issueNow e) d data of
           Inl err \<Rightarrow> (\<lparr>statusCode = 500, body = ErrorJson ''Failed to create issue'' (DbFailed err)\<rparr>, d)
         | Inr (newIssue, d1) \<Rightarrow>
             (case addStatusHistory (e_historyUuid e) (e_historyNow e) d1
                     \<lparr>n_issueId = Str (id' newIssue), n_status = Str ''submitted'',
                      n_notes = Str ''Issue submitted'', n_updatedBy = jsor reporter Null\<rparr> of
                Inl err \<Rightarrow> (\<lparr>statusCode = 500, body = ErrorJson ''Failed to create issue'' (DbFailed err)\<rparr>, d1)
              | Inr (newHistory, d2) \<Rightarrow> (\<lparr>statusCode = 201, body = IssueJson (Some newIssue)\<rparr>, d2))))"

definition postIssue :: "env \<Rightarrow> db \<Rightarrow> submission \<Rightarrow> response \<times> db" where
  "postIssue e d req = storeIssue e d (p_reporterId (s_body req)) (submissionData req)"

subsection \<open>The fusion as the specification words it\<close>

text \<open>First non-empty wins, left to right; \<open>None\<close> when no candidate is non-empty.\<close>

fun firstNonEmpty :: "jsfield list \<Rightarrow> string option" where
  "firstNonEmpty [] = None"
| "firstNonEmpty (Str s # xs) = (if s \<noteq> [] then Some s else firstNonEmpty xs)"
| "firstNonEmpty (Undefined # xs) = firstNonEmpty xs"
| "firstNonEmpty (Null # xs) = firstNonEmpty xs"

definition firstOr :: "jsfield list \<Rightarrow> string \<Rightarrow> string" where
  "firstOr xs dflt = (case firstNonEmpty xs of Some s \<Rightarrow> s | None \<Rightarrow> dflt)"

text \<open>
  A field of the image-detection result. There is a result when a photo was uploaded and
  the analysis returned; its field is the field of the reply, or the default of the
  analysis when the reply has none.
\<close>

fun imageField :: "(rawDetection \<Rightarrow> jsfield) \<Rightarrow> string \<Rightarrow> rawDetection outcome option \<Rightarrow> jsfield" where
  "imageField f dflt (Some (Returns raw)) = Str (firstOr [f raw] dflt)"
| "imageField f dflt (Some Throws) = Undefined"
| "imageField f dflt None = Undefined"

text \<open>
  The voice-extraction result. There is a result when audio was uploaded and both the
  transcription and the extraction returned: the transcribed text and the reply of the
  extraction.
\<close>

definition voiceResult :: "audioReplies option \<Rightarrow> (string \<times> rawExtraction) option" where
  "voiceResult au =
     (case au of
        None \<Rightarrow> None
      | Some a \<Rightarrow>
          (case a_transcription a of
             Throws \<Rightarrow> None
           | Returns (tx, lang) \<Rightarrow>
               (case a_extraction a of
                  Throws \<Rightarrow> None
                | Returns x \<Rightarrow> Some (tx, x))))"

definition voiceDescription :: "audioReplies option \<Rightarrow> jsfield" where
  "voiceDescription au =
     (case voiceResult au of None \<Rightarrow> Undefined | Some (tx, x) \<Rightarrow> Str (firstOr [x_description x] tx))"

definition voiceIssueType :: "audioReplies option \<Rightarrow> jsfield" where
  "voiceIssueType au =
     (case voiceResult au of None \<Rightarrow> Undefined | Some (tx, x) \<Rightarrow> Str (firstOr [x_issueType x] ''other''))"

definition voicePriority :: "audioReplies option \<Rightarrow> jsfield" where
  "voicePriority au =
     (case voiceResult au of None \<Rightarrow> Undefined | Some (tx, x) \<Rightarrow> Str (firstOr [x_priority x] ''medium''))"

definition voiceLocation :: "audioReplies option \<Rightarrow> jsfield" where
  "voiceLocation au =
     (case voiceResult au of None \<Rightarrow> Undefined | Some (tx, x) \<Rightarrow> x_location x)"

text \<open>The value each chain chooses: user field, image field, voice field, default.\<close>

definition chosenTitle :: "submission \<Rightarrow> string" where
  "chosenTitle req =
     firstOr [p_title (s_body req),
              imageField r_description ''Issue detected in image'' (s_photo req),
              voiceDescription (s_audio req)] ''New Issue''"

definition chosenIssueType :: "submission \<Rightarrow> string" where
  "chosenIssueType req =
     firstOr [p_issueType (s_body req),
              imageField r_issueType ''other'' (s_photo req),
              voiceIssueType (s_audio req)] ''other''"

definition chosenPriority :: "submission \<Rightarrow> string" where
  "chosenPriority req =
     firstOr [p_priority (s_body req),
              imageField r_severity ''medium'' (s_photo req),
              voicePriority (s_audio req)] ''medium''"

definition chosenLocation :: "submission \<Rightarrow> string" where
  "chosenLocation req = firstOr [p_location (s_body req), voiceLocation (s_audio req)] ''''"

definition chosenDepartment :: "submission \<Rightarrow> string" where
  "chosenDepartment req =
     firstOr [p_assignedDepartment (s_body req),
              imageField r_suggestedDepartment ''General Services'' (s_photo req)] ''''"

text \<open>A number clamped to the interval from 0 to 1.\<close>

definition clamp01 :: "rat \<Rightarrow> rat" where
  "clamp01 x = (if x < 0 then 0 else if 1 < x then 1 else x)"

text \<open>
  The confidence of the image-detection result, when there is a result: the confidence of
  the reply, 0 when the reply has none, clamped.
\<close>

fun imageConfidence :: "rawDetection outcome option \<Rightarrow> rat option" where
  "imageConfidence (Some (Returns raw)) =
     Some (clamp01 (case r_confidence raw of None \<Rightarrow> 0 | Some c \<Rightarrow> c))"
| "imageConfidence (Some Throws) = None"
| "imageConfidence None = None"

text \<open>
  A string starts with a decimal literal: after leading white space and one optional sign
  comes \<^verbatim>\<open>Infinity\<close>, a digit, or a dot followed by a digit.
\<close>

definition afterSign :: "string \<Rightarrow> string" where
  "afterSign s =
     (case dropWhile isWhiteSpace s of
        [] \<Rightarrow> []
      | c # r \<Rightarrow> if c = CHR ''-'' \<or> c = CHR ''+'' then r else c # r)"

definition leadingLiteral :: "string \<Rightarrow> bool" where
  "leadingLiteral s =
     (take 8 (afterSign s) = ''Infinity''
      \<or> (case afterSign s of
            [] \<Rightarrow> False
          | c # r \<Rightarrow> isDigit c \<or> (c = CHR ''.'' \<and> (case r of [] \<Rightarrow> False | c' # r' \<Rightarrow> isDigit c'))))"

text \<open>
  The values a submission resolves to are acceptable: the chosen issue type and priority
  are labels, the language is empty or a label, each coordinate is empty or reads as a
  number that the schema and the \<^verbatim>\<open>real\<close> column take, the column takes the confidence,
  and the reporter is empty or a user.
\<close>

definition emptyOrLabel :: "(string \<Rightarrow> 'a option) \<Rightarrow> jsfield \<Rightarrow> bool" where
  "emptyOrLabel labels x = (\<not> truthy x \<or> requiredEnum labels x)"

fun columnTakes :: "(jsnum \<Rightarrow> dbError + jsnum) \<Rightarrow> jsnum \<Rightarrow> bool" where
  "columnTakes col x = (case col x of Inl err \<Rightarrow> False | Inr y \<Rightarrow> True)"

fun coordinateTaken :: "(jsnum \<Rightarrow> dbError + jsnum) \<Rightarrow> jsfield \<Rightarrow> bool" where
  "coordinateTaken col (Str s) = (s = [] \<or> (realNumber (parseFloat s) \<and> columnTakes col (parseFloat s)))"
| "coordinateTaken col Undefined = True"
| "coordinateTaken col Null = True"

definition acceptable :: "env \<Rightarrow> db \<Rightarrow> submission \<Rightarrow> bool" where
  "acceptable e d req =
     (issueTypeEnum (chosenIssueType req) \<noteq> None
      \<and> priorityEnum (chosenPriority req) \<noteq> None
      \<and> emptyOrLabel languageEnum (p_language (s_body req))
      \<and> coordinateTaken (e_realColumn e) (p_latitude (s_body req))
      \<and> coordinateTaken (e_realColumn e) (p_longitude (s_body req))
      \<and> (case imageConfidence (s_photo req) of
            None \<Rightarrow> True
          | Some c \<Rightarrow> c = 0 \<or> columnTakes (e_realColumn e) (Fin c))
      \<and> references (users d) (columnValue (jsor (p_reporterId (s_body req)) Null)))"

section \<open>Example data\<close>

definition issue0 :: issue where
  "issue0 =
     \<lparr>id' = ''i1'', reporterId = None, title = ''Overflowing bin'', description = None,
      issueType = Garbage, priority = Some Medium, status = Some Resolved, location = ''Ward 4'',
      latitude = None, longitude = None, address = None, ward = None,
      assignedDepartment = Some ''Sanitation'', assignedTo = Some ''crew-7'', photoUrl = None, audioUrl = None,
      transcription = None, aiDetectionResult = None, aiConfidence = None,
      estimatedResolutionDays = None, actualResolutionDate = Some 1000,
      smsNotificationSent = Some False, language = Some En, createdAt = Some 0, updatedAt = Some 1000\<rparr>"

definition db0 :: db where
  "db0 = \<lparr>users = [''u1''], issues = [issue0], history = []\<rparr>"

text \<open>
  A \<^verbatim>\<open>real\<close> column that exchanges numbers as text, as PostgreSQL does with the
  driver: the Number is sent as its string, the column reads the string as the nearest
  single-precision value and rejects a number that overflows or that underflows to zero,
  and the row returned holds the Number read from the shortest text of the stored value.
\<close>

definition realColumn :: "jsnum \<Rightarrow> dbError + jsnum" where
  "realColumn x =
     (case x of
        Fin r \<Rightarrow>
          if r = 0 then Inr (Fin 0)
          else
            (case roundBinary 24 (- 126) 127 (shortestDecimal 53 (- 1022) 1023 17 \<bar>r\<bar>) of
               Fin y \<Rightarrow>
                 if y = 0 then Inl NumericValueOutOfRange
                 else
                   (case toNumber (shortestDecimal 24 (- 126) 127 9 y) of
                      Fin z \<Rightarrow> Inr (Fin (if r < 0 then - z else z))
                    | other \<Rightarrow> Inr other)
             | other \<Rightarrow> Inl NumericValueOutOfRange)
      | other \<Rightarrow> Inr x)"

definition env0 :: env where
  "env0 = \<lparr>e_handlerNow = 5000, e_storageNow = 5001, e_issueUuid = ''i2'', e_issueNow = 5002,
            e_historyUuid = ''h1'', e_historyNow = 5003, e_realColumn = realColumn\<rparr>"

definition body0 :: statusBody where
  "body0 = \<lparr>b_status = Str ''resolved'', b_notes = Str ''fixed again'', b_updatedBy = Str ''u1'',
             b_assignedDepartment = Str '''', b_assignedTo = Str ''crew-9''\<rparr>"

definition db1 :: db where
  "db1 =
     \<lparr>users = [],
      issues =
        [issue0\<lparr>id' := ''a'', status := Some Submitted, assignedDepartment := Some ''Roads'',
                actualResolutionDate := None\<rparr>,
         issue0\<lparr>id' := ''b'', status := Some Acknowledged, assignedDepartment := Some ''Roads'',
                actualResolutionDate := None\<rparr>,
         issue0\<lparr>id' := ''c'', status := Some Resolved, assignedDepartment := Some ''Roads'',
                createdAt := Some 1000, actualResolutionDate := Some 259201000\<rparr>,
         issue0\<lparr>id' := ''d'', status := Some Resolved, assignedDepartment := Some ''Roads'',
                createdAt := Some 1000, actualResolutionDate := Some 86401001\<rparr>,
         issue0\<lparr>id' := ''e'', status := Some InProgress, assignedDepartment := Some ''Parks'',
                actualResolutionDate := None\<rparr>,
         issue0\<lparr>id' := ''f'', status := Some Submitted, assignedDepartment := Some '''',
                actualResolutionDate := None\<rparr>],
      history = []\<rparr>"

definition emptyBody :: issueBody where
  "emptyBody =
     \<lparr>p_title = Undefined, p_description = Undefined, p_issueType = Undefined, p_priority = Undefined,
      p_location = Undefined, p_latitude = Undefined, p_longitude = Undefined, p_address = Undefined,
      p_ward = Undefined, p_assignedDepartment = Undefined, p_reporterId = Undefined,
      p_photoUrl = Undefined, p_audioUrl = Undefined, p_language = Undefined\<rparr>"

definition lampRequest :: submission where
  "lampRequest =
     \<lparr>s_body = emptyBody\<lparr>p_title := Str ''Broken lamp'', p_issueType := Str ''streetlight'',
                           p_priority := Str ''high'', p_reporterId := Str ''u1''\<rparr>,
      s_photo = None, s_audio = None\<rparr>"

definition emptyRequest :: submission where
  "emptyRequest = \<lparr>s_body = emptyBody, s_photo = None, s_audio = None\<rparr>"

definition potholeReply :: rawDetection where
  "potholeReply =
     \<lparr>r_issueType = Str ''pothole'', r_confidence = Some (7 / 8), r_description = Str ''Large pothole'',
      r_severity = Str ''high'', r_suggestedDepartment = Undefined\<rparr>"

definition potholeRequest :: submission where
  "potholeRequest = \<lparr>s_body = emptyBody, s_photo = Some (Returns potholeReply), s_audio = None\<rparr>"

definition zeroConfidenceRequest :: submission where
  "zeroConfidenceRequest =
     \<lparr>s_body = emptyBody, s_photo = Some (Returns (potholeReply\<lparr>r_confidence := Some 0\<rparr>)), s_audio = None\<rparr>"

definition badLatitudeRequest :: submission where
  "badLatitudeRequest =
     \<lparr>s_body = emptyBody\<lparr>p_title := Str ''Broken lamp'', p_issueType := Str ''streetlight'',
                           p_latitude := Str ''abc'', p_longitude := Str ''72.8''\<rparr>,
      s_photo = None, s_audio = None\<rparr>"

definition gpsRequest :: submission where
  "gpsRequest =
     \<lparr>s_body = emptyBody\<lparr>p_title := Str ''Broken lamp'', p_issueType := Str ''streetlight'',
                           p_latitude := Str ''19.5'', p_longitude := Str ''''\<rparr>,
      s_photo = None, s_audio = None\<rparr>"

text \<open>
  A submission with the latitude \<^verbatim>\<open>19.0760123\<close> and a photo for which the analysis returns
  the confidence 0.123456789, as the Number read from this text.
\<close>

definition preciseRequest :: submission where
  "preciseRequest =
     \<lparr>s_body = emptyBody\<lparr>p_latitude := Str ''19.0760123''\<rparr>,
      s_photo = Some (Returns (potholeReply\<lparr>r_confidence := Some (8895999182988127 / 72057594037927936)\<rparr>)),
      s_audio = None\<rparr>"

definition failedAiRequest :: submission where
  "failedAiRequest =
     \<lparr>s_body = emptyBody\<lparr>p_title := Str ''Broken lamp''\<rparr>,
      s_photo = Some Throws,
      s_audio = Some \<lparr>a_transcription = Throws, a_extraction = Throws\<rparr>\<rparr>"

definition adminBody :: statusBody where
  "adminBody = body0\<lparr>b_updatedBy := Str ''admin''\<rparr>"

definition voiceReplies :: audioReplies where
  "voiceReplies =
     \<lparr>a_transcription = Returns (''there is garbage near the gate'', Str ''en''),
      a_extraction =
        Returns \<lparr>x_issueType = Str ''garbage'', x_location = Str ''North gate'',
                 x_description = Str ''Garbage pile'', x_priority = Str ''low''\<rparr>\<rparr>"

definition voiceRequest :: submission where
  "voiceRequest = \<lparr>s_body = emptyBody, s_photo = Some Throws, s_audio = Some voiceReplies\<rparr>"

definition urgentReplies :: audioReplies where
  "urgentReplies =
     \<lparr>a_transcription = Returns (''deep hole in the road'', Str ''en''),
      a_extraction =
        Returns \<lparr>x_issueType = Str ''pothole'', x_location = Undefined,
                 x_description = Str ''Deep hole'', x_priority = Str ''urgent''\<rparr>\<rparr>"

definition urgentRequest :: submission where
  "urgentRequest =
     \<lparr>s_body = emptyBody,
      s_photo = Some (Returns (potholeReply\<lparr>r_confidence := Some (3 / 4)\<rparr>)),
      s_audio = Some urgentReplies\<rparr>"

section \<open>The status route: properties\<close>

lemma u_status_statusUpdateData: "u_status (statusUpdateData now b) = b_status b"
  by (simp add: statusUpdateData_def)

lemma updateIssue_rejected:
  "setStatus (u_status u) = Inl err \<Longrightarrow> updateIssue now d rid u = Inl err"
  by (simp add: updateIssue_def)

lemma updateIssue_applied:
  "setStatus (u_status u) = Inr st \<Longrightarrow>
     \<exists>r. updateIssue now d rid u =
       Inr (r, d\<lparr>issues := map (\<lambda>i. if id' i = rid then applyUpdates now st u i else i) (issues d)\<rparr>)"
  by (simp add: updateIssue_def Let_def)

lemma addStatusHistory_appends:
  "addStatusHistory uuid now d h = Inr (r, d1) \<Longrightarrow> d1 = d\<lparr>history := history d @ [r]\<rparr>"
  unfolding addStatusHistory_def Let_def
  by (clarsimp split: option.splits if_splits)

lemma issues_patch:
  "issues (snd (patchIssueStatus e d rid b)) =
     (case setStatus (b_status b) of Inl err \<Rightarrow> issues d
      | Inr st \<Rightarrow> map (\<lambda>i. if id' i = rid then applyUpdates (e_storageNow e) st (statusUpdateData (e_handlerNow e) b) i else i) (issues d))"
proof (cases "setStatus (b_status b)")
  case (Inl err)
  then have "updateIssue (e_storageNow e) d rid (statusUpdateData (e_handlerNow e) b) = Inl err"
    by (simp add: updateIssue_rejected u_status_statusUpdateData)
  then show ?thesis using Inl by (simp add: patchIssueStatus_def)
next
  case (Inr st)
  let ?u = "statusUpdateData (e_handlerNow e) b"
  let ?d1 = "d\<lparr>issues := map (\<lambda>i. if id' i = rid then applyUpdates (e_storageNow e) st ?u i else i) (issues d)\<rparr>"
  from Inr obtain r where upd: "updateIssue (e_storageNow e) d rid ?u = Inr (r, ?d1)"
    using updateIssue_applied [of ?u st "e_storageNow e" d rid] by (auto simp: u_status_statusUpdateData)
  let ?h = "\<lparr>n_issueId = Str rid, n_status = b_status b, n_notes = b_notes b, n_updatedBy = b_updatedBy b\<rparr>"
  show ?thesis
  proof (cases "addStatusHistory (e_historyUuid e) (e_historyNow e) ?d1 ?h")
    case (Inl err)
    then show ?thesis using upd Inr by (simp add: patchIssueStatus_def)
  next
    case (Inr p)
    obtain nh d2 where p: "p = (nh, d2)" by (cases p)
    with Inr have "d2 = ?d1\<lparr>history := history ?d1 @ [nh]\<rparr>"
      using addStatusHistory_appends by blast
    then have "issues d2 = issues ?d1" by simp
    then show ?thesis using upd Inr p \<open>setStatus (b_status b) = Inr st\<close> by (simp add: patchIssueStatus_def)
  qed
qed

text \<open>
  Claim C2. After a status update, the row with the requested id carries the handler's
  current time as \<^verbatim>\<open>actualResolutionDate\<close> when the new status is \<^verbatim>\<open>resolved\<close>; for any
  other status, and on every other row, the column keeps the value it had: it is neither
  set nor cleared.
\<close>

theorem resolution_stamp_iff_resolved:
  "map actualResolutionDate (issues (snd (patchIssueStatus e d rid b))) =
   map (\<lambda>i. if id' i = rid \<and> b_status b = Str ''resolved'' then Some (e_handlerNow e) else actualResolutionDate i) (issues d)"
proof (cases "setStatus (b_status b)")
  case (Inl err)
  then have "b_status b \<noteq> Str ''resolved''" by (auto simp: issueStatusEnum_def)
  then show ?thesis using Inl by (simp add: issues_patch)
next
  case (Inr st)
  have "actualResolutionDate (applyUpdates (e_storageNow e) st (statusUpdateData (e_handlerNow e) b) i) =
        (if b_status b = Str ''resolved'' then Some (e_handlerNow e) else actualResolutionDate i)" for i
    by (simp add: applyUpdates_def statusUpdateData_def)
  then show ?thesis using Inr by (simp add: issues_patch comp_def if_distrib cong: if_cong)
qed

lemma map_unmatched: "rid \<notin> id' ` set xs \<Longrightarrow> map (\<lambda>i. if id' i = rid then f i else i) xs = xs"
  by (induction xs) auto

lemma addStatusHistory_unknown_issue:
  assumes "rid \<notin> id' ` set (issues d)"
  shows "\<exists>err. addStatusHistory uuid now d \<lparr>n_issueId = Str rid, n_status = s, n_notes = n, n_updatedBy = u\<rparr> = Inl err"
  using assms unfolding addStatusHistory_def by (simp split: option.splits)

lemma addStatusHistory_accepted:
  assumes "issueStatusEnum s = Some st" and "references (map id' (issues d)) (Some rid)"
    and "references (users d) (columnValue u)"
  shows "addStatusHistory uuid now d \<lparr>n_issueId = Str rid, n_status = Str s, n_notes = n, n_updatedBy = u\<rparr> =
     (let newHistory = \<lparr>h_id = uuid, h_issueId = Some rid, h_status = st, h_notes = columnValue n,
                         h_updatedBy = columnValue u, h_createdAt = Some now\<rparr>
      in Inr (newHistory, d\<lparr>history := history d @ [newHistory]\<rparr>))"
  using assms unfolding addStatusHistory_def Let_def by simp

text \<open>
  Claim C1, as the code has it. A status update whose id matches no issue is never answered
  with Not-Found: \<^verbatim>\<open>updateIssue\<close> returns \<^verbatim>\<open>undefined\<close> without throwing, the handler
  goes on to insert the history row, the reference to \<^verbatim>\<open>issues.id\<close> rejects it, and the
  handler answers the generic status 500. The database is left as it was.
\<close>

theorem unknown_id_answers_500:
  assumes "rid \<notin> id' ` set (issues d)"
  shows "patchIssueStatus e d rid b =
           (\<lparr>statusCode = 500, body = MessageJson ''Failed to update issue status''\<rparr>, d)"
proof (cases "setStatus (b_status b)")
  case (Inl err)
  then have "updateIssue (e_storageNow e) d rid (statusUpdateData (e_handlerNow e) b) = Inl err"
    by (simp add: updateIssue_rejected u_status_statusUpdateData)
  then show ?thesis by (simp add: patchIssueStatus_def)
next
  case (Inr st)
  let ?u = "statusUpdateData (e_handlerNow e) b"
  from Inr obtain r where "updateIssue (e_storageNow e) d rid ?u =
      Inr (r, d\<lparr>issues := map (\<lambda>i. if id' i = rid then applyUpdates (e_storageNow e) st ?u i else i) (issues d)\<rparr>)"
    using updateIssue_applied [of ?u st "e_storageNow e" d rid] by (auto simp: u_status_statusUpdateData)
  then have upd: "updateIssue (e_storageNow e) d rid ?u = Inr (r, d)"
    using assms by (simp add: map_unmatched)
  obtain err where "addStatusHistory (e_historyUuid e) (e_historyNow e) d
      \<lparr>n_issueId = Str rid, n_status = b_status b, n_notes = b_notes b, n_updatedBy = b_updatedBy b\<rparr> = Inl err"
    using addStatusHistory_unknown_issue [OF assms] by blast
  then show ?thesis using upd by (simp add: patchIssueStatus_def)
qed

theorem unknown_id_answers_500_witness:
  "''missing'' \<notin> id' ` set (issues db0) \<and>
   patchIssueStatus env0 db0 ''missing''
     \<lparr>b_status = Str ''acknowledged'', b_notes = Undefined, b_updatedBy = Undefined,
      b_assignedDepartment = Undefined, b_assignedTo = Undefined\<rparr> =
   (\<lparr>statusCode = 500, body = MessageJson ''Failed to update issue status''\<rparr>, db0)"
proof -
  have h: "''missing'' \<notin> id' ` set (issues db0)" by (simp add: db0_def issue0_def)
  show ?thesis using h unknown_id_answers_500 [OF h] by simp
qed

lemma patch_accepted:
  assumes "b_status b = Str s" and "issueStatusEnum s = Some st"
    and "rid \<in> id' ` set (issues d)" and "references (users d) (columnValue (b_updatedBy b))"
  shows "\<exists>r. patchIssueStatus e d rid b =
     (\<lparr>statusCode = 200, body = IssueJson r\<rparr>,
      d\<lparr>issues := map (\<lambda>i. if id' i = rid
                            then applyUpdates (e_storageNow e) (\<lambda>old. Some st) (statusUpdateData (e_handlerNow e) b) i
                            else i) (issues d),
        history := history d @
          [\<lparr>h_id = e_historyUuid e, h_issueId = Some rid, h_status = st, h_notes = columnValue (b_notes b),
            h_updatedBy = columnValue (b_updatedBy b), h_createdAt = Some (e_historyNow e)\<rparr>]\<rparr>)"
proof -
  let ?u = "statusUpdateData (e_handlerNow e) b"
  let ?rows = "map (\<lambda>i. if id' i = rid then applyUpdates (e_storageNow e) (\<lambda>old. Some st) ?u i else i) (issues d)"
  have "setStatus (u_status ?u) = Inr (\<lambda>old. Some st)"
    using assms(1,2) by (simp add: u_status_statusUpdateData)
  then obtain r where upd: "updateIssue (e_storageNow e) d rid ?u = Inr (r, d\<lparr>issues := ?rows\<rparr>)"
    using updateIssue_applied by blast
  have "id' (applyUpdates now f u i) = id' i" for now f u i
    by (simp add: applyUpdates_def)
  then have "map id' ?rows = map id' (issues d)"
    by (simp add: if_distrib cong: if_cong)
  then have ids: "references (map id' ?rows) (Some rid)"
    using assms(3) by (simp only: references.simps set_map)
  have "addStatusHistory (e_historyUuid e) (e_historyNow e) (d\<lparr>issues := ?rows\<rparr>)
          \<lparr>n_issueId = Str rid, n_status = Str s, n_notes = b_notes b, n_updatedBy = b_updatedBy b\<rparr> =
        (let newHistory = \<lparr>h_id = e_historyUuid e, h_issueId = Some rid, h_status = st, h_notes = columnValue (b_notes b),
                         h_updatedBy = columnValue (b_updatedBy b), h_createdAt = Some (e_historyNow e)\<rparr>
         in Inr (newHistory, d\<lparr>issues := ?rows\<rparr>\<lparr>history := history (d\<lparr>issues := ?rows\<rparr>) @ [newHistory]\<rparr>))"
    by (rule addStatusHistory_accepted) (use assms ids in \<open>simp_all del: references.simps set_map\<close>)
  then show ?thesis using upd assms(1) by (simp add: patchIssueStatus_def Let_def)
qed

theorem resolution_stamp_iff_resolved_witness:
  "map actualResolutionDate (issues (snd (patchIssueStatus env0 db0 ''i1'' (body0\<lparr>b_status := Str ''in_progress''\<rparr>)))) = [Some 1000]
   \<and> map actualResolutionDate (issues (snd (patchIssueStatus env0 db0 ''i1'' body0))) = [Some 5000]"
  using resolution_stamp_iff_resolved [of env0 db0 "''i1''" "body0\<lparr>b_status := Str ''in_progress''\<rparr>"]
    resolution_stamp_iff_resolved [of env0 db0 "''i1''" body0]
  by (simp add: env0_def db0_def issue0_def body0_def)

text \<open>
  Claim C9 as stated fails for the empty string: the request supplies the empty string as
  \<^verbatim>\<open>assignedDepartment\<close>, and the row keeps its department.
\<close>

theorem empty_department_is_not_written:
  "map assignedDepartment (issues (snd (patchIssueStatus env0 db0 ''i1'' body0))) = [Some ''Sanitation'']
   \<and> map assignedDepartment (issues (snd (patchIssueStatus env0 db0 ''i1'' body0))) \<noteq> [columnValue (b_assignedDepartment body0)]"
  by (simp add: issues_patch env0_def db0_def issue0_def body0_def applyUpdates_def statusUpdateData_def issueStatusEnum_def)

text \<open>
  Claim C9, amended. When the update applies, \<^verbatim>\<open>assignedDepartment\<close> and \<^verbatim>\<open>assignedTo\<close>
  of the row with the requested id are overwritten by the supplied value exactly when that
  value is truthy (a non-empty string); an absent, \<^verbatim>\<open>null\<close> or empty value leaves the column
  as it was. Apart from these two columns and \<^verbatim>\<open>status\<close>, \<^verbatim>\<open>actualResolutionDate\<close> and
  \<^verbatim>\<open>updatedAt\<close>, no column of any row changes.
\<close>

theorem assignment_overwritten_when_truthy:
  assumes "setStatus (b_status b) = Inr st"
  shows "map assignedDepartment (issues (snd (patchIssueStatus e d rid b))) =
           map (\<lambda>i. if id' i = rid \<and> truthy (b_assignedDepartment b)
                     then columnValue (b_assignedDepartment b) else assignedDepartment i) (issues d)
       \<and> map assignedTo (issues (snd (patchIssueStatus e d rid b))) =
           map (\<lambda>i. if id' i = rid \<and> truthy (b_assignedTo b)
                     then columnValue (b_assignedTo b) else assignedTo i) (issues d)
       \<and> map (\<lambda>i. i\<lparr>status := None, assignedDepartment := None, assignedTo := None,
                     actualResolutionDate := None, updatedAt := None\<rparr>) (issues (snd (patchIssueStatus e d rid b))) =
         map (\<lambda>i. i\<lparr>status := None, assignedDepartment := None, assignedTo := None,
                     actualResolutionDate := None, updatedAt := None\<rparr>) (issues d)"
proof -
  let ?u = "statusUpdateData (e_handlerNow e) b"
  have dep: "assignedDepartment (applyUpdates (e_storageNow e) st ?u i) =
        (if truthy (b_assignedDepartment b) then columnValue (b_assignedDepartment b) else assignedDepartment i)" for i
    by (cases "b_assignedDepartment b") (simp_all add: applyUpdates_def statusUpdateData_def)
  have to: "assignedTo (applyUpdates (e_storageNow e) st ?u i) =
        (if truthy (b_assignedTo b) then columnValue (b_assignedTo b) else assignedTo i)" for i
    by (cases "b_assignedTo b") (simp_all add: applyUpdates_def statusUpdateData_def)
  have rest: "(applyUpdates (e_storageNow e) st ?u i)\<lparr>status := None, assignedDepartment := None, assignedTo := None,
                     actualResolutionDate := None, updatedAt := None\<rparr> =
              i\<lparr>status := None, assignedDepartment := None, assignedTo := None,
                     actualResolutionDate := None, updatedAt := None\<rparr>" for i
    by (simp add: applyUpdates_def)
  have 1: "map assignedDepartment (issues (snd (patchIssueStatus e d rid b))) =
           map (\<lambda>i. if id' i = rid \<and> truthy (b_assignedDepartment b)
                     then columnValue (b_assignedDepartment b) else assignedDepartment i) (issues d)"
    using assms dep by (simp add: issues_patch comp_def if_distrib cong: if_cong)
  have 2: "map assignedTo (issues (snd (patchIssueStatus e d rid b))) =
           map (\<lambda>i. if id' i = rid \<and> truthy (b_assignedTo b)
                     then columnValue (b_assignedTo b) else assignedTo i) (issues d)"
    using assms to by (simp add: issues_patch comp_def if_distrib cong: if_cong)
  have "(if id' i = rid then applyUpdates (e_storageNow e) st ?u i else i)\<lparr>status := None, assignedDepartment := None, assignedTo := None,
                     actualResolutionDate := None, updatedAt := None\<rparr> =
              i\<lparr>status := None, assignedDepartment := None, assignedTo := None,
                     actualResolutionDate := None, updatedAt := None\<rparr>" for i
    using rest [of i] by (cases "id' i = rid") (simp_all only: simp_thms if_True if_False)
  then have 3: "map (\<lambda>i. i\<lparr>status := None, assignedDepartment := None, assignedTo := None,
                     actualResolutionDate := None, updatedAt := None\<rparr>) (issues (snd (patchIssueStatus e d rid b))) =
         map (\<lambda>i. i\<lparr>status := None, assignedDepartment := None, assignedTo := None,
                     actualResolutionDate := None, updatedAt := None\<rparr>) (issues d)"
    using assms by (simp add: issues_patch comp_def)
  from 1 2 3 show ?thesis by (intro conjI)
qed

theorem assignment_overwritten_when_truthy_witness:
  "setStatus (b_status body0) = Inr (\<lambda>old. Some Resolved)
   \<and> map assignedDepartment (issues (snd (patchIssueStatus env0 db0 ''i1'' body0))) = [Some ''Sanitation'']
   \<and> map assignedTo (issues (snd (patchIssueStatus env0 db0 ''i1'' body0))) = [Some ''crew-9'']"
proof -
  have h: "setStatus (b_status body0) = Inr (\<lambda>old. Some Resolved)"
    by (simp add: body0_def issueStatusEnum_def)
  show ?thesis
    using h assignment_overwritten_when_truthy [OF h, of env0 db0 "''i1''"]
    by (simp add: db0_def issue0_def body0_def)
qed

lemma addStatusHistory_unknown_user:
  assumes "\<not> references (users d) (columnValue u)"
  shows "\<exists>err. addStatusHistory uuid now d \<lparr>n_issueId = i, n_status = s, n_notes = n, n_updatedBy = u\<rparr> = Inl err"
  using assms unfolding addStatusHistory_def by (simp split: option.splits)

lemma patch_history_rejected:
  assumes "\<not> references (users d) (columnValue (b_updatedBy b))"
  shows "history (snd (patchIssueStatus e d rid b)) = history d"
    and "statusCode (fst (patchIssueStatus e d rid b)) = 500"
proof -
  let ?u = "statusUpdateData (e_handlerNow e) b"
  have both: "history (snd (patchIssueStatus e d rid b)) = history d
      \<and> statusCode (fst (patchIssueStatus e d rid b)) = 500"
  proof (cases "setStatus (b_status b)")
    case (Inl err)
    then have "updateIssue (e_storageNow e) d rid ?u = Inl err"
      by (simp add: updateIssue_rejected u_status_statusUpdateData)
    then show ?thesis by (simp add: patchIssueStatus_def)
  next
    case (Inr st)
    let ?d1 = "d\<lparr>issues := map (\<lambda>i. if id' i = rid then applyUpdates (e_storageNow e) st ?u i else i) (issues d)\<rparr>"
    from Inr obtain r where upd: "updateIssue (e_storageNow e) d rid ?u = Inr (r, ?d1)"
      using updateIssue_applied [of ?u st "e_storageNow e" d rid] by (auto simp: u_status_statusUpdateData)
    have "\<not> references (users ?d1) (columnValue (b_updatedBy b))"
      using assms by simp
    then obtain err where "addStatusHistory (e_historyUuid e) (e_historyNow e) ?d1
        \<lparr>n_issueId = Str rid, n_status = b_status b, n_notes = b_notes b, n_updatedBy = b_updatedBy b\<rparr> = Inl err"
      using addStatusHistory_unknown_user by blast
    then show ?thesis using upd by (simp add: patchIssueStatus_def)
  qed
  from both show "history (snd (patchIssueStatus e d rid b)) = history d" by simp
  from both show "statusCode (fst (patchIssueStatus e d rid b)) = 500" by simp
qed

text \<open>
  Claim C10 as stated fails when the update names a user that does not exist, as the
  administration panel does with \<^verbatim>\<open>admin\<close>: the resolution stamp of the resolved issue is
  overwritten, but the history row is rejected by the reference to \<^verbatim>\<open>users.id\<close>, no entry
  is appended and the update is answered with status 500.
\<close>

theorem re_resolve_by_unknown_user_appends_nothing:
  "status issue0 = Some Resolved
   \<and> map actualResolutionDate (issues db0) = [Some 1000]
   \<and> map actualResolutionDate (issues (snd (patchIssueStatus env0 db0 ''i1'' adminBody))) = [Some 5000]
   \<and> history (snd (patchIssueStatus env0 db0 ''i1'' adminBody)) = history db0
   \<and> statusCode (fst (patchIssueStatus env0 db0 ''i1'' adminBody)) = 500"
proof -
  have unknown: "\<not> references (users db0) (columnValue (b_updatedBy adminBody))"
    by (simp add: db0_def adminBody_def body0_def)
  have "map actualResolutionDate (issues (snd (patchIssueStatus env0 db0 ''i1'' adminBody))) = [Some 5000]"
    by (simp add: issues_patch env0_def db0_def issue0_def adminBody_def body0_def applyUpdates_def
        statusUpdateData_def issueStatusEnum_def)
  with patch_history_rejected [OF unknown, of env0 "''i1''"] show ?thesis
    by (simp add: db0_def issue0_def)
qed

text \<open>
  Claim C10, amended. A request for status \<^verbatim>\<open>resolved\<close> on an issue that is already
  resolved replaces the resolution stamp of the issue by the time of this update, and when
  the update is made by nobody or by an existing user it appends exactly one history row,
  of status \<^verbatim>\<open>resolved\<close>, for the issue.
\<close>

theorem re_resolve_overwrites_stamp:
  assumes "i \<in> set (issues d)" and "id' i = rid" and "status i = Some Resolved"
    and "b_status b = Str ''resolved''"
  shows "map actualResolutionDate (issues (snd (patchIssueStatus e d rid b))) =
           map (\<lambda>j. if id' j = rid then Some (e_handlerNow e) else actualResolutionDate j) (issues d)
       \<and> (references (users d) (columnValue (b_updatedBy b)) \<longrightarrow>
            history (snd (patchIssueStatus e d rid b)) =
              history d @
                [\<lparr>h_id = e_historyUuid e, h_issueId = Some rid, h_status = Resolved,
                  h_notes = columnValue (b_notes b), h_updatedBy = columnValue (b_updatedBy b),
                  h_createdAt = Some (e_historyNow e)\<rparr>])"
proof -
  have enum: "issueStatusEnum ''resolved'' = Some Resolved"
    by (simp add: issueStatusEnum_def)
  have known: "rid \<in> id' ` set (issues d)"
    using assms(1,2) by blast
  have st: "setStatus (b_status b) = Inr (\<lambda>old. Some Resolved)"
    using assms(4) enum by simp
  have "actualResolutionDate (applyUpdates (e_storageNow e) (\<lambda>old. Some Resolved) (statusUpdateData (e_handlerNow e) b) j) =
        Some (e_handlerNow e)" for j
    using assms(4) by (simp add: applyUpdates_def statusUpdateData_def)
  then have stamp: "map actualResolutionDate (issues (snd (patchIssueStatus e d rid b))) =
           map (\<lambda>j. if id' j = rid then Some (e_handlerNow e) else actualResolutionDate j) (issues d)"
    using st by (simp add: issues_patch comp_def if_distrib cong: if_cong)
  have "history (snd (patchIssueStatus e d rid b)) =
              history d @
                [\<lparr>h_id = e_historyUuid e, h_issueId = Some rid, h_status = Resolved,
                  h_notes = columnValue (b_notes b), h_updatedBy = columnValue (b_updatedBy b),
                  h_createdAt = Some (e_historyNow e)\<rparr>]"
    if ok: "references (users d) (columnValue (b_updatedBy b))"
  proof -
    obtain r where run: "patchIssueStatus e d rid b =
       (\<lparr>statusCode = 200, body = IssueJson r\<rparr>,
        d\<lparr>issues := map (\<lambda>i. if id' i = rid
                              then applyUpdates (e_storageNow e) (\<lambda>old. Some Resolved) (statusUpdateData (e_handlerNow e) b) i
                              else i) (issues d),
          history := history d @
            [\<lparr>h_id = e_historyUuid e, h_issueId = Some rid, h_status = Resolved, h_notes = columnValue (b_notes b),
              h_updatedBy = columnValue (b_updatedBy b), h_createdAt = Some (e_historyNow e)\<rparr>]\<rparr>)"
      using patch_accepted [OF assms(4) enum known ok] by blast
    show ?thesis unfolding run by simp
  qed
  with stamp show ?thesis by blast
qed

theorem re_resolve_overwrites_stamp_witness:
  "status issue0 = Some Resolved
   \<and> actualResolutionDate issue0 = Some 1000
   \<and> map actualResolutionDate (issues (snd (patchIssueStatus env0 db0 ''i1'' body0))) = [Some 5000]
   \<and> history (snd (patchIssueStatus env0 db0 ''i1'' body0)) =
        [\<lparr>h_id = ''h1'', h_issueId = Some ''i1'', h_status = Resolved, h_notes = Some ''fixed again'',
          h_updatedBy = Some ''u1'', h_createdAt = Some 5003\<rparr>]"
proof -
  have h1: "issue0 \<in> set (issues db0)" by (simp add: db0_def)
  have h2: "id' issue0 = ''i1''" by (simp add: issue0_def)
  have h3: "status issue0 = Some Resolved" by (simp add: issue0_def)
  have h4: "b_status body0 = Str ''resolved''" by (simp add: body0_def)
  have h5: "references (users db0) (columnValue (b_updatedBy body0))" by (simp add: db0_def body0_def)
  show ?thesis
    using h3 h5 re_resolve_overwrites_stamp [OF h1 h2 h3 h4, of env0]
    by (simp add: db0_def issue0_def body0_def env0_def)
qed

section \<open>The statistics: properties\<close>

lemma length_filter_disj:
  "(\<And>x. \<not> (P x \<and> Q x)) \<Longrightarrow>
     length (filter (\<lambda>x. P x \<or> Q x) xs) = length (filter P xs) + length (filter Q xs)"
  by (induction xs) auto

lemma foldl_diffDays:
  "foldl (\<lambda>acc i. acc + diffDays i) a xs = a + sum_list (map diffDays xs)"
  by (induction xs arbitrary: a) simp_all

lemma diffDays_resolutionDays:
  "createdAt i = Some c \<Longrightarrow> actualResolutionDate i = Some r \<Longrightarrow> diffDays i = resolutionDays c r"
  by (simp add: diffDays_def resolutionDays_def mathCeil_def)

lemma mathRound_tenth:
  fixes m :: rat
  shows "\<bar>of_int (mathRound (m * 10)) / 10 - m\<bar> \<le> 1 / 20"
proof -
  let ?k = "mathRound (m * 10)"
  have "of_int ?k \<le> m * 10 + 1 / 2" and "m * 10 + 1 / 2 < of_int ?k + 1"
    unfolding mathRound_def by linarith+
  then have "of_int ?k / 10 - m \<le> 1 / 20" and "- (1 / 20) \<le> of_int ?k / 10 - m"
    by linarith+
  then show ?thesis
    by (rule abs_leI [OF _ minus_le_iff [THEN iffD1]])
qed

lemma allIssues_inScope:
  "(if truthy (departmentField dep)
    then filter (\<lambda>i. assignedDepartment i = columnValue (departmentField dep)) xs
    else xs) = inScope dep xs"
  by (cases dep) simp_all

lemma sum_diffDays_qualifying:
  assumes "\<forall>i\<in>set xs. createdAt i \<noteq> None"
  shows "sum_list (map diffDays (qualifying xs)) =
         sum_list (map (\<lambda>i. resolutionDays (the (createdAt i)) (the (actualResolutionDate i))) (qualifying xs))"
proof -
  have "diffDays i = resolutionDays (the (createdAt i)) (the (actualResolutionDate i))"
    if "i \<in> set (qualifying xs)" for i
  proof -
    from that assms obtain c r where "createdAt i = Some c" and "actualResolutionDate i = Some r"
      by (auto simp: qualifying_def)
    then show ?thesis by (simp add: diffDays_resolutionDays)
  qed
  then show ?thesis by (simp cong: map_cong)
qed

lemma avgResolutionDays_getIssueStats:
  "avgResolutionDays (getIssueStats d (departmentField dep)) =
     (if qualifying (inScope dep (issues d)) = [] then 0
      else of_int (mathRound (of_int (sum_list (map diffDays (qualifying (inScope dep (issues d)))))
                               / of_int (int (length (qualifying (inScope dep (issues d))))) * 10)) / 10)"
  unfolding getIssueStats_def Let_def allIssues_inScope
  by (simp add: foldl_diffDays qualifying_def)

text \<open>
  Claim C3 as stated fails for the empty department name, which is what the submission
  route stores for an unassigned issue: the statistics requested for it are those of all
  six issues, of which one is assigned to that name.
\<close>

theorem empty_department_is_no_filter:
  "total (getIssueStats db1 (Str '''')) = 6
   \<and> length (filter (\<lambda>i. assignedDepartment i = Some '''') (issues db1)) = 1
   \<and> pending (getIssueStats db1 (Str '''')) = 3
   \<and> length (filter (\<lambda>i. status i = Some Submitted \<or> status i = Some Acknowledged)
         (filter (\<lambda>i. assignedDepartment i = Some '''') (issues db1))) = 1"
  by (simp add: getIssueStats_def db1_def)

text \<open>
  Claim C3, amended. Over the issues in scope (all issues when no department or the empty
  name is given, otherwise those whose \<^verbatim>\<open>assignedDepartment\<close> equals the given name),
  \<^verbatim>\<open>total\<close> is their number, \<^verbatim>\<open>pending\<close> is the number of submitted plus the number of
  acknowledged issues, \<^verbatim>\<open>inProgress\<close> and \<^verbatim>\<open>resolved\<close> are the numbers of issues in these
  states, and \<^verbatim>\<open>avgResolutionDays\<close> is 0 when no issue is resolved with a resolution date,
  and otherwise the mean of the day counts \<open>ceil((resolution - creation) / 86400 s)\<close> of
  those issues rounded to one decimal place: a whole number of tenths, at most 0.05 from
  the mean, a tie going up. One issue resolved three days after its creation gives 3.
  Rows carry their creation time.
\<close>

theorem getIssueStats_counts_and_average:
  fixes d :: db and dep :: "string option"
  defines "S \<equiv> inScope dep (issues d)"
  defines "st \<equiv> getIssueStats d (departmentField dep)"
  assumes "\<forall>i\<in>set (issues d). createdAt i \<noteq> None"
  shows "S = (case dep of
                None \<Rightarrow> issues d
              | Some name \<Rightarrow>
                  if name = [] then issues d
                  else filter (\<lambda>i. assignedDepartment i = Some name) (issues d))
       \<and> total st = length S
       \<and> pending st = countStatus Submitted S + countStatus Acknowledged S
       \<and> inProgress st = countStatus InProgress S
       \<and> resolved st = countStatus Resolved S
       \<and> (qualifying S = [] \<longrightarrow> avgResolutionDays st = 0)
       \<and> (qualifying S \<noteq> [] \<longrightarrow>
            avgResolutionDays st = of_int (round (meanDays (qualifying S) * 10)) / 10
            \<and> \<bar>avgResolutionDays st - meanDays (qualifying S)\<bar> \<le> 1 / 20)
       \<and> (\<forall>i t. S = [i] \<and> status i = Some Resolved \<and> createdAt i = Some t
              \<and> actualResolutionDate i = Some (t + 3 * 86400000) \<longrightarrow> avgResolutionDays st = 3)"
proof -
  have scope: "S = (case dep of
                None \<Rightarrow> issues d
              | Some name \<Rightarrow>
                  if name = [] then issues d
                  else filter (\<lambda>i. assignedDepartment i = Some name) (issues d))"
    unfolding S_def by (cases dep) simp_all
  have counts: "total st = length S"
    "pending st = countStatus Submitted S + countStatus Acknowledged S"
    "inProgress st = countStatus InProgress S"
    "resolved st = countStatus Resolved S"
    unfolding st_def S_def getIssueStats_def Let_def allIssues_inScope countStatus_def
    by (simp_all add: length_filter_disj)
  have created: "\<forall>i\<in>set S. createdAt i \<noteq> None"
    using assms(3) unfolding S_def by (cases dep) simp_all
  have avg: "avgResolutionDays st =
     (if qualifying S = [] then 0
      else of_int (mathRound (meanDays (qualifying S) * 10)) / 10)"
    unfolding st_def S_def avgResolutionDays_getIssueStats
    using sum_diffDays_qualifying [OF created] by (simp add: meanDays_def S_def)
  have empty: "qualifying S = [] \<longrightarrow> avgResolutionDays st = 0"
    by (simp add: avg)
  have rounded: "qualifying S \<noteq> [] \<longrightarrow>
            avgResolutionDays st = of_int (round (meanDays (qualifying S) * 10)) / 10
            \<and> \<bar>avgResolutionDays st - meanDays (qualifying S)\<bar> \<le> 1 / 20"
    using mathRound_tenth [of "meanDays (qualifying S)"]
    by (simp add: avg mathRound_def round_def)
  have three: "avgResolutionDays st = 3"
    if "S = [i]" and "status i = Some Resolved" and "createdAt i = Some t"
      and "actualResolutionDate i = Some (t + 3 * 86400000)" for i t
  proof -
    have q: "qualifying S = [i]"
      using that by (simp add: qualifying_def)
    have "meanDays [i] = 3"
      using that by (simp add: meanDays_def resolutionDays_def)
    moreover have "\<lfloor>(3::rat) * 10 + 1 / 2\<rfloor> = 30"
      by (rule floor_unique) simp_all
    ultimately show ?thesis
      by (simp add: avg q mathRound_def del: floor_divide_eq_div_numeral)
  qed
  from scope counts empty rounded three show ?thesis
    by blast
qed

theorem getIssueStats_counts_and_average_witness:
  "list_all (\<lambda>i. createdAt i \<noteq> None) (issues db1)
   \<and> total (getIssueStats db1 (Str ''Roads'')) = 4
   \<and> pending (getIssueStats db1 (Str ''Roads'')) = 2
   \<and> inProgress (getIssueStats db1 (Str ''Roads'')) = 0
   \<and> resolved (getIssueStats db1 (Str ''Roads'')) = 2
   \<and> avgResolutionDays (getIssueStats db1 (Str ''Roads'')) = 5 / 2
   \<and> total (getIssueStats db1 (Str '''')) = 6
   \<and> total (getIssueStats db1 Undefined) = 6"
proof -
  have h2: "\<forall>i\<in>set (issues db1). createdAt i \<noteq> None" by (simp add: db1_def issue0_def)
  have c1: "\<lceil>(259200000::rat) / 86400000\<rceil> = 3" by (rule ceiling_unique) simp_all
  have c2: "\<lceil>(86400001::rat) / 86400000\<rceil> = 2" by (rule ceiling_unique) simp_all
  have r: "round ((5::rat) / 2 * 10) = 25"
    unfolding round_def by (rule floor_unique) simp_all
  have q: "qualifying (inScope (Some ''Roads'') (issues db1)) =
      [issue0\<lparr>id' := ''c'', status := Some Resolved, assignedDepartment := Some ''Roads'',
                createdAt := Some 1000, actualResolutionDate := Some 259201000\<rparr>,
       issue0\<lparr>id' := ''d'', status := Some Resolved, assignedDepartment := Some ''Roads'',
                createdAt := Some 1000, actualResolutionDate := Some 86401001\<rparr>]"
    by (simp add: qualifying_def db1_def)
  have m: "meanDays (qualifying (inScope (Some ''Roads'') (issues db1))) = 5 / 2"
    unfolding q by (simp add: meanDays_def resolutionDays_def c1 c2 del: ceiling_divide_eq_div_numeral)
  let ?st = "getIssueStats db1 (Str ''Roads'')"
  let ?S = "inScope (Some ''Roads'') (issues db1)"
  from getIssueStats_counts_and_average [OF h2, of "Some ''Roads''"]
  have t: "total ?st = length ?S"
    "pending ?st = countStatus Submitted ?S + countStatus Acknowledged ?S"
    "inProgress ?st = countStatus InProgress ?S"
    "resolved ?st = countStatus Resolved ?S"
    "qualifying ?S \<noteq> [] \<longrightarrow> avgResolutionDays ?st = of_int (round (meanDays (qualifying ?S) * 10)) / 10"
    by simp_all
  have n: "length ?S = 4" "countStatus Submitted ?S = 1" "countStatus Acknowledged ?S = 1"
    "countStatus InProgress ?S = 0" "countStatus Resolved ?S = 2"
    by (simp_all add: db1_def countStatus_def)
  have "qualifying ?S \<noteq> []"
    by (simp add: q del: inScope.simps)
  with t(5) have a: "avgResolutionDays ?st = 5 / 2"
    by (simp add: m r del: inScope.simps)
  from getIssueStats_counts_and_average [OF h2, of "Some ''''"]
  have e: "total (getIssueStats db1 (Str '''')) = 6"
    by (simp add: db1_def)
  from getIssueStats_counts_and_average [OF h2, of None]
  have u: "total (getIssueStats db1 Undefined) = 6"
    by (simp add: db1_def)
  from h2 t(1-4) n a e u show ?thesis
    by (simp add: list_all_iff)
qed

section \<open>The submission route: properties\<close>

subsection \<open>Numbers\<close>

lemma roundBinary_not_NaN: "roundBinary p emin emax x \<noteq> NaN"
  by (simp add: roundBinary_def Let_def)

lemma toNumber_not_NaN: "toNumber x \<noteq> NaN"
  by (simp add: toNumber_def roundBinary_not_NaN)

lemma negate_NaN_iff: "negate x = NaN \<longleftrightarrow> x = NaN"
  by (cases x) simp_all

lemma takeWhile_Nil_iff: "takeWhile P xs = [] \<longleftrightarrow> (case xs of [] \<Rightarrow> True | x # r \<Rightarrow> \<not> P x)"
  by (cases xs) simp_all

lemma unsignedLiteral_NaN_iff:
  "unsignedLiteral u = NaN \<longleftrightarrow>
     \<not> (take 8 u = ''Infinity''
        \<or> (case u of
              [] \<Rightarrow> False
            | c # r \<Rightarrow> isDigit c \<or> (c = CHR ''.'' \<and> (case r of [] \<Rightarrow> False | c' # r' \<Rightarrow> isDigit c'))))"
proof (cases "take 8 u = ''Infinity''")
  case True
  then show ?thesis by (simp add: unsignedLiteral_def)
next
  case notInf: False
  show ?thesis
  proof (cases u)
    case Nil
    then show ?thesis by (simp add: unsignedLiteral_def)
  next
    case (Cons c r)
    show ?thesis
    proof (cases "isDigit c")
      case True
      then have "takeWhile isDigit u \<noteq> []" using Cons by simp
      then have "unsignedLiteral u \<noteq> NaN"
        using notInf by (simp add: unsignedLiteral_def Let_def toNumber_not_NaN)
      then show ?thesis using Cons True by simp
    next
      case False
      then have nodigits: "takeWhile isDigit u = []" "dropWhile isDigit u = c # r"
        using Cons by simp_all
      show ?thesis
      proof (cases "c = CHR ''.''")
        case True
        then have "unsignedLiteral u = NaN \<longleftrightarrow> takeWhile isDigit r = []"
          using notInf nodigits by (simp add: unsignedLiteral_def Let_def toNumber_not_NaN)
        then show ?thesis
          using Cons False True by (simp add: takeWhile_Nil_iff split: list.splits)
      next
        case notDot: False
        then have "unsignedLiteral u = NaN"
          using notInf nodigits by (simp add: unsignedLiteral_def Let_def)
        then show ?thesis
          using Cons False notDot notInf by simp
      qed
    qed
  qed
qed

lemma parseFloat_afterSign: "parseFloat s = NaN \<longleftrightarrow> unsignedLiteral (afterSign s) = NaN"
proof -
  have "unsignedLiteral [] = NaN"
    by (simp add: unsignedLiteral_def)
  then have "(case t of
                [] \<Rightarrow> NaN
              | c # r \<Rightarrow>
                  if c = CHR ''-'' then negate (unsignedLiteral r)
                  else if c = CHR ''+'' then unsignedLiteral r
                  else unsignedLiteral (c # r)) = NaN \<longleftrightarrow>
             unsignedLiteral (case t of
                                [] \<Rightarrow> []
                              | c # r \<Rightarrow> if c = CHR ''-'' \<or> c = CHR ''+'' then r else c # r) = NaN" for t
    by (cases t) (simp_all add: negate_NaN_iff)
  then show ?thesis
    unfolding parseFloat_def afterSign_def .
qed

lemma parseFloat_NaN_iff: "parseFloat s = NaN \<longleftrightarrow> \<not> leadingLiteral s"
  unfolding parseFloat_afterSign unsignedLiteral_NaN_iff leadingLiteral_def ..

lemma realColumn_examples:
  "realColumn (Fin (39 / 2)) = Inr (Fin (39 / 2))"
  "realColumn (Fin (3 / 4)) = Inr (Fin (3 / 4))"
  by code_simp+

lemma parseFloat_examples:
  "parseFloat ''19.5'' = Fin (39 / 2)"
  "parseFloat ''abc'' = NaN"
  by code_simp+

lemma latitude_example:
  "parseFloat ''19.0760123'' = Fin (5369420117874687 / 281474976710656)"
  "parseFloat ''19.076012'' = Fin (2684710016716097 / 140737488355328)"
  "realColumn (Fin (5369420117874687 / 281474976710656)) = Inr (Fin (2684710016716097 / 140737488355328))"
  by code_simp+

lemma confidence_example:
  "parseFloat ''0.123456789'' = Fin (8895999182988127 / 72057594037927936)"
  "parseFloat ''0.12345679'' = Fin (8895999255045721 / 72057594037927936)"
  "realColumn (Fin (8895999182988127 / 72057594037927936)) = Inr (Fin (8895999255045721 / 72057594037927936))"
  by code_simp+

subsection \<open>The payload\<close>

lemma jsor_default: "jsor a (Str dflt) = Str (firstOr [a] dflt)"
  by (cases a) (simp_all add: jsor_def firstOr_def)

lemma firstOr_nest: "firstOr [a] (firstOr xs dflt) = firstOr (a # xs) dflt"
  by (cases a) (simp_all add: firstOr_def)

lemma no_uploads:
  "processPhoto None = None" "processAudio None = (Null, None)"
  by (simp_all add: processPhoto_def processAudio_def)

lemma image_fields:
  "optChain (processPhoto photo) det_description = imageField r_description ''Issue detected in image'' photo"
  "optChain (processPhoto photo) det_issueType = imageField r_issueType ''other'' photo"
  "optChain (processPhoto photo) det_severity = imageField r_severity ''medium'' photo"
  "optChain (processPhoto photo) det_suggestedDepartment = imageField r_suggestedDepartment ''General Services'' photo"
  by (cases photo rule: imageConfidence.cases;
      simp add: processPhoto_def analyzeIssueImage_def jsor_default)+

lemma voice_fields:
  "optChain (snd (processAudio au)) ex_description = voiceDescription au"
  "optChain (snd (processAudio au)) ex_issueType = voiceIssueType au"
  "optChain (snd (processAudio au)) ex_priority = voicePriority au"
  "optChain (snd (processAudio au)) ex_location = voiceLocation au"
proof -
  have "optChain (snd (processAudio au)) ex_description = voiceDescription au
      \<and> optChain (snd (processAudio au)) ex_issueType = voiceIssueType au
      \<and> optChain (snd (processAudio au)) ex_priority = voicePriority au
      \<and> optChain (snd (processAudio au)) ex_location = voiceLocation au"
  proof (cases au)
    case None
    then show ?thesis
      by (simp add: no_uploads voiceResult_def voiceDescription_def voiceIssueType_def voicePriority_def
          voiceLocation_def)
  next
    case (Some a)
    show ?thesis
    proof (cases "a_transcription a")
      case Throws
      then show ?thesis using Some
        by (simp add: processAudio_def transcribeAudio_def voiceResult_def voiceDescription_def
            voiceIssueType_def voicePriority_def voiceLocation_def)
    next
      case (Returns p)
      obtain tx lang where p: "p = (tx, lang)" by (cases p)
      show ?thesis
      proof (cases "a_extraction a")
        case Throws
        then show ?thesis using Some Returns p
          by (simp add: processAudio_def transcribeAudio_def extractIssueFromText_def voiceResult_def
              voiceDescription_def voiceIssueType_def voicePriority_def voiceLocation_def)
      next
        case (Returns x)
        then show ?thesis using Some \<open>a_transcription a = Returns p\<close> p
          by (simp add: processAudio_def transcribeAudio_def extractIssueFromText_def voiceResult_def
              voiceDescription_def voiceIssueType_def voicePriority_def voiceLocation_def jsor_default)
      qed
    qed
  qed
  then show "optChain (snd (processAudio au)) ex_description = voiceDescription au"
    and "optChain (snd (processAudio au)) ex_issueType = voiceIssueType au"
    and "optChain (snd (processAudio au)) ex_priority = voicePriority au"
    and "optChain (snd (processAudio au)) ex_location = voiceLocation au"
    by simp_all
qed

lemma clamp01_max_min: "max 0 (min 1 x) = clamp01 x"
  by (simp add: clamp01_def max_def min_def)

lemma numberOr_zero: "numberOr c 0 = (case c of None \<Rightarrow> 0 | Some x \<Rightarrow> x)"
  by (cases c) simp_all

lemma clamp01_range: "0 \<le> clamp01 x" "clamp01 x \<le> 1"
  by (simp_all add: clamp01_def)

lemma confidence_of_photo:
  "confidenceOrNull (processPhoto photo) =
     (case imageConfidence photo of None \<Rightarrow> None | Some c \<Rightarrow> if c = 0 then None else Some c)"
  by (cases photo rule: imageConfidence.cases)
     (simp_all add: processPhoto_def analyzeIssueImage_def confidenceOrNull_def clamp01_max_min numberOr_zero)

lemma payload_chosen:
  "d_title (submissionData req) = Str (chosenTitle req)"
  "d_issueType (submissionData req) = Str (chosenIssueType req)"
  "d_priority (submissionData req) = Str (chosenPriority req)"
  "d_location (submissionData req) = Str (chosenLocation req)"
  "d_assignedDepartment (submissionData req) = Str (chosenDepartment req)"
  "d_aiConfidence (submissionData req) =
     (case imageConfidence (s_photo req) of None \<Rightarrow> None | Some c \<Rightarrow> if c = 0 then None else Some c)"
  by (simp_all add: submissionData_def issueData_def image_fields voice_fields jsor_default firstOr_nest
      confidence_of_photo chosenTitle_def chosenIssueType_def chosenPriority_def chosenLocation_def
      chosenDepartment_def)

lemma coordinate_cases:
  "coordinate x = (case x of Str s \<Rightarrow> if s = [] then None else Some (parseFloat s) | _ \<Rightarrow> None)"
  by (cases x) (simp_all add: coordinate_def)

lemma payload_coordinates:
  "d_latitude (submissionData req) = coordinate (p_latitude (s_body req))"
  "d_longitude (submissionData req) = coordinate (p_longitude (s_body req))"
  by (simp_all add: submissionData_def issueData_def)

subsection \<open>Validation and insertion\<close>

lemma createIssue_Inr:
  assumes "createIssue col uuid now d data = Inr (i, d1)"
  shows "\<exists>t tyl ty pr loc lang lat lon conf.
           d_title data = Str t \<and> d_issueType data = Str tyl \<and> issueTypeEnum tyl = Some ty
           \<and> enumColumn priorityEnum (Some Medium) (d_priority data) = Inr pr
           \<and> d_location data = Str loc
           \<and> enumColumn languageEnum (Some En) (d_language data) = Inr lang
           \<and> realValue col (d_latitude data) = Inr lat
           \<and> realValue col (d_longitude data) = Inr lon
           \<and> realValue col (map_option Fin (d_aiConfidence data)) = Inr conf
           \<and> i = issueRow uuid now data t ty pr loc lang lat lon conf
           \<and> d1 = d\<lparr>issues := issues d @ [i]\<rparr>"
proof -
  obtain t where t: "d_title data = Str t"
    using assms by (cases "d_title data") (auto simp: createIssue_def split: sum.splits option.splits)
  obtain loc where loc: "d_location data = Str loc"
    using assms by (cases "d_location data") (auto simp: createIssue_def split: sum.splits option.splits)
  obtain tyl ty where ty: "d_issueType data = Str tyl" "issueTypeEnum tyl = Some ty"
    using assms by (cases "d_issueType data") (auto simp: createIssue_def split: sum.splits option.splits)
  obtain pr where pr: "enumColumn priorityEnum (Some Medium) (d_priority data) = Inr pr"
    using assms by (auto simp: createIssue_def split: sum.splits)
  obtain lang where lang: "enumColumn languageEnum (Some En) (d_language data) = Inr lang"
    using assms by (auto simp: createIssue_def split: sum.splits)
  obtain lat where lat: "realValue col (d_latitude data) = Inr lat"
    using assms ty pr lang by (auto simp: createIssue_def split: sum.splits)
  obtain lon where lon: "realValue col (d_longitude data) = Inr lon"
    using assms ty pr lang by (auto simp: createIssue_def split: sum.splits)
  obtain conf where conf: "realValue col (map_option Fin (d_aiConfidence data)) = Inr conf"
    using assms ty pr lang by (auto simp: createIssue_def split: sum.splits)
  have "i = issueRow uuid now data t ty pr loc lang lat lon conf \<and> d1 = d\<lparr>issues := issues d @ [i]\<rparr>"
    using assms t loc ty pr lang lat lon conf by (auto simp: createIssue_def Let_def split: if_splits)
  with t loc ty pr lang lat lon conf show ?thesis by blast
qed

lemma issueRow_fields:
  "id' (issueRow uuid now data t ty pr loc lang lat lon conf) = uuid"
  "title (issueRow uuid now data t ty pr loc lang lat lon conf) = t"
  "description (issueRow uuid now data t ty pr loc lang lat lon conf) = columnValue (d_description data)"
  "issueType (issueRow uuid now data t ty pr loc lang lat lon conf) = ty"
  "priority (issueRow uuid now data t ty pr loc lang lat lon conf) = pr"
  "latitude (issueRow uuid now data t ty pr loc lang lat lon conf) = lat"
  "longitude (issueRow uuid now data t ty pr loc lang lat lon conf) = lon"
  "aiConfidence (issueRow uuid now data t ty pr loc lang lat lon conf) = conf"
  "aiDetectionResult (issueRow uuid now data t ty pr loc lang lat lon conf) = d_aiDetectionResult data"
  by (simp_all add: issueRow_def)

lemma storeIssue_201:
  assumes "fst (storeIssue e d rep data) = \<lparr>statusCode = 201, body = IssueJson (Some i)\<rparr>"
  shows "insertIssueSchema data"
    and "\<exists>d1. createIssue (e_realColumn e) (e_issueUuid e) (e_issueNow e) d data = Inr (i, d1)"
proof -
  show valid: "insertIssueSchema data"
    using assms by (auto simp: storeIssue_def split: if_splits)
  show "\<exists>d1. createIssue (e_realColumn e) (e_issueUuid e) (e_issueNow e) d data = Inr (i, d1)"
  proof (cases "createIssue (e_realColumn e) (e_issueUuid e) (e_issueNow e) d data")
    case (Inl err)
    then show ?thesis using assms valid by (simp add: storeIssue_def)
  next
    case (Inr p)
    obtain j d1 where p: "p = (j, d1)" by (cases p)
    have "j = i"
      using assms valid Inr p by (auto simp: storeIssue_def split: sum.splits)
    then show ?thesis using Inr p by simp
  qed
qed

lemma created_issue_fields:
  assumes "fst (storeIssue e d rep data) = \<lparr>statusCode = 201, body = IssueJson (Some i)\<rparr>"
  shows "d_title data = Str (title i)"
    and "\<exists>tyl. d_issueType data = Str tyl \<and> issueTypeEnum tyl = Some (issueType i)"
    and "enumColumn priorityEnum (Some Medium) (d_priority data) = Inr (priority i)"
    and "description i = columnValue (d_description data)"
    and "realValue (e_realColumn e) (d_latitude data) = Inr (latitude i)"
    and "realValue (e_realColumn e) (d_longitude data) = Inr (longitude i)"
    and "realValue (e_realColumn e) (map_option Fin (d_aiConfidence data)) = Inr (aiConfidence i)"
    and "optionalNumber (d_latitude data)" and "optionalNumber (d_longitude data)"
    and "aiDetectionResult i = d_aiDetectionResult data"
proof -
  from storeIssue_201 [OF assms] obtain d1 where valid: "insertIssueSchema data"
    and ins: "createIssue (e_realColumn e) (e_issueUuid e) (e_issueNow e) d data = Inr (i, d1)"
    by blast
  from createIssue_Inr [OF ins] obtain t tyl ty pr loc lang lat lon conf where
    f: "d_title data = Str t" "d_issueType data = Str tyl" "issueTypeEnum tyl = Some ty"
       "enumColumn priorityEnum (Some Medium) (d_priority data) = Inr pr"
       "realValue (e_realColumn e) (d_latitude data) = Inr lat"
       "realValue (e_realColumn e) (d_longitude data) = Inr lon"
       "realValue (e_realColumn e) (map_option Fin (d_aiConfidence data)) = Inr conf"
       "i = issueRow (e_issueUuid e) (e_issueNow e) data t ty pr loc lang lat lon conf"
    by blast
  show "d_title data = Str (title i)" using f by (simp add: issueRow_fields)
  show "\<exists>tyl. d_issueType data = Str tyl \<and> issueTypeEnum tyl = Some (issueType i)"
    using f by (simp add: issueRow_fields)
  show "enumColumn priorityEnum (Some Medium) (d_priority data) = Inr (priority i)"
    using f by (simp add: issueRow_fields)
  show "description i = columnValue (d_description data)" using f by (simp add: issueRow_fields)
  show "realValue (e_realColumn e) (d_latitude data) = Inr (latitude i)"
    using f by (simp add: issueRow_fields)
  show "realValue (e_realColumn e) (d_longitude data) = Inr (longitude i)"
    using f by (simp add: issueRow_fields)
  show "realValue (e_realColumn e) (map_option Fin (d_aiConfidence data)) = Inr (aiConfidence i)"
    using f by (simp add: issueRow_fields)
  show "optionalNumber (d_latitude data)" using valid by (simp add: insertIssueSchema_def)
  show "optionalNumber (d_longitude data)" using valid by (simp add: insertIssueSchema_def)
  show "aiDetectionResult i = d_aiDetectionResult data" using f by (simp add: issueRow_fields)
qed

lemma realValue_cases:
  "realValue col x = Inr y \<longleftrightarrow>
     (x = None \<and> y = None) \<or> (\<exists>v w. x = Some v \<and> col v = Inr w \<and> y = Some w)"
  by (cases x) (auto split: sum.splits)

lemma enumColumn_accepts:
  "optionalEnum labels x \<Longrightarrow> \<exists>v. enumColumn labels dflt x = Inr v"
  by (cases x) auto

lemma storeIssue_created:
  assumes "insertIssueSchema data"
    and "realValue (e_realColumn e) (d_latitude data) = Inr lat"
    and "realValue (e_realColumn e) (d_longitude data) = Inr lon"
    and "realValue (e_realColumn e) (map_option Fin (d_aiConfidence data)) = Inr conf"
    and "references (users d) (columnValue (d_reporterId data))"
    and "references (users d) (columnValue (jsor rep Null))"
  shows "\<exists>i h. storeIssue e d rep data =
           (\<lparr>statusCode = 201, body = IssueJson (Some i)\<rparr>,
            d\<lparr>issues := issues d @ [i], history := history d @ [h]\<rparr>)
         \<and> h_issueId h = Some (id' i) \<and> h_status h = Submitted"
proof -
  let ?uuid = "e_issueUuid e" and ?now = "e_issueNow e"
  from assms(1) obtain t where t: "d_title data = Str t"
    by (cases "d_title data") (simp_all add: insertIssueSchema_def)
  from assms(1) obtain loc where loc: "d_location data = Str loc"
    by (cases "d_location data") (simp_all add: insertIssueSchema_def)
  from assms(1) obtain tyl ty where ty: "d_issueType data = Str tyl" "issueTypeEnum tyl = Some ty"
    by (cases "d_issueType data") (auto simp: insertIssueSchema_def)
  from assms(1) obtain pr where pr: "enumColumn priorityEnum (Some Medium) (d_priority data) = Inr pr"
    using enumColumn_accepts [of priorityEnum "d_priority data"] by (auto simp: insertIssueSchema_def)
  from assms(1) obtain lang where lang: "enumColumn languageEnum (Some En) (d_language data) = Inr lang"
    using enumColumn_accepts [of languageEnum "d_language data"] by (auto simp: insertIssueSchema_def)
  let ?i = "issueRow ?uuid ?now data t ty pr loc lang lat lon conf"
  let ?d1 = "d\<lparr>issues := issues d @ [?i]\<rparr>"
  have ins: "createIssue (e_realColumn e) ?uuid ?now d data = Inr (?i, ?d1)"
    using t loc ty pr lang assms(2-5) by (simp add: createIssue_def Let_def)
  have enum: "issueStatusEnum ''submitted'' = Some Submitted"
    by (simp add: issueStatusEnum_def)
  have known: "references (map id' (issues ?d1)) (Some (id' ?i))"
    by simp
  have users: "references (users ?d1) (columnValue (jsor rep Null))"
    using assms(6) by simp
  let ?h = "\<lparr>h_id = e_historyUuid e, h_issueId = Some (id' ?i), h_status = Submitted,
             h_notes = columnValue (Str ''Issue submitted''),
             h_updatedBy = columnValue (jsor rep Null), h_createdAt = Some (e_historyNow e)\<rparr>"
  have hist: "addStatusHistory (e_historyUuid e) (e_historyNow e) ?d1
          \<lparr>n_issueId = Str (id' ?i), n_status = Str ''submitted'',
           n_notes = Str ''Issue submitted'', n_updatedBy = jsor rep Null\<rparr> =
        Inr (?h, ?d1\<lparr>history := history ?d1 @ [?h]\<rparr>)"
    using addStatusHistory_accepted [OF enum known users, of "e_historyUuid e" "e_historyNow e" "Str ''Issue submitted''"]
    by (simp add: Let_def)
  have "storeIssue e d rep data =
           (\<lparr>statusCode = 201, body = IssueJson (Some ?i)\<rparr>,
            d\<lparr>issues := issues d @ [?i], history := history d @ [?h]\<rparr>)"
    using assms(1) ins hist by (simp add: storeIssue_def)
  moreover have "h_issueId ?h = Some (id' ?i) \<and> h_status ?h = Submitted"
    by simp
  ultimately show ?thesis by blast
qed

lemma coordinateTaken_realValue:
  assumes "coordinateTaken col x"
  shows "optionalNumber (coordinate x)" and "\<exists>y. realValue col (coordinate x) = Inr y"
proof -
  have "optionalNumber (coordinate x) \<and> (\<exists>y. realValue col (coordinate x) = Inr y)"
  proof (cases x)
    case (Str s)
    then show ?thesis
      using assms by (cases "s = []") (auto simp: coordinate_cases split: sum.splits)
  qed (simp_all add: coordinate_cases)
  then show "optionalNumber (coordinate x)" and "\<exists>y. realValue col (coordinate x) = Inr y"
    by simp_all
qed

lemma label_chosen:
  "labels s \<noteq> None \<Longrightarrow> requiredEnum labels (Str s)" "labels s \<noteq> None \<Longrightarrow> optionalEnum labels (Str s)"
  by simp_all

lemma language_or_default:
  "emptyOrLabel languageEnum x \<Longrightarrow> optionalEnum languageEnum (jsor x (Str ''en''))"
  by (cases x) (auto simp: jsor_def emptyOrLabel_def languageEnum_def)

lemma created_when_acceptable:
  assumes "acceptable e d req"
  shows "\<exists>i h. postIssue e d req =
            (\<lparr>statusCode = 201, body = IssueJson (Some i)\<rparr>,
             d\<lparr>issues := issues d @ [i], history := history d @ [h]\<rparr>)
          \<and> h_issueId h = Some (id' i) \<and> h_status h = Submitted
          \<and> title i = chosenTitle req
          \<and> issueTypeEnum (chosenIssueType req) = Some (issueType i)
          \<and> priorityEnum (chosenPriority req) = priority i"
proof -
  let ?data = "submissionData req" and ?b = "s_body req" and ?col = "e_realColumn e"
  from assms have a: "issueTypeEnum (chosenIssueType req) \<noteq> None"
    "priorityEnum (chosenPriority req) \<noteq> None"
    "emptyOrLabel languageEnum (p_language ?b)"
    "coordinateTaken ?col (p_latitude ?b)" "coordinateTaken ?col (p_longitude ?b)"
    "case imageConfidence (s_photo req) of None \<Rightarrow> True | Some c \<Rightarrow> c = 0 \<or> columnTakes ?col (Fin c)"
    "references (users d) (columnValue (jsor (p_reporterId ?b) Null))"
    by (simp_all add: acceptable_def)
  have conf_valid: "optionalNumber (map_option Fin (d_aiConfidence ?data))"
  proof (cases "imageConfidence (s_photo req)")
    case None
    then show ?thesis by (simp add: payload_chosen)
  next
    case (Some c)
    then have "0 \<le> c \<and> c \<le> 1"
      by (cases "s_photo req" rule: imageConfidence.cases) (auto simp: clamp01_range)
    then show ?thesis using Some by (simp add: payload_chosen)
  qed
  have "\<exists>conf. realValue ?col (map_option Fin (d_aiConfidence ?data)) = Inr conf"
  proof (cases "imageConfidence (s_photo req)")
    case None
    then show ?thesis by (simp add: payload_chosen)
  next
    case (Some c)
    show ?thesis
    proof (cases "c = 0")
      case True
      then show ?thesis using Some by (simp add: payload_chosen)
    next
      case False
      then show ?thesis using Some a(6) by (simp add: payload_chosen split: sum.splits)
    qed
  qed
  then obtain conf where conf: "realValue ?col (map_option Fin (d_aiConfidence ?data)) = Inr conf"
    by blast
  obtain lat where lat: "realValue ?col (d_latitude ?data) = Inr lat"
    using coordinateTaken_realValue(2) [OF a(4)] by (auto simp: payload_coordinates)
  obtain lon where lon: "realValue ?col (d_longitude ?data) = Inr lon"
    using coordinateTaken_realValue(2) [OF a(5)] by (auto simp: payload_coordinates)
  have "d_language ?data = jsor (p_language ?b) (Str ''en'')"
    by (simp add: submissionData_def issueData_def)
  then have lang: "optionalEnum languageEnum (d_language ?data)"
    using language_or_default [OF a(3)] by simp
  have valid: "insertIssueSchema ?data"
    unfolding insertIssueSchema_def
    using a(1,2) lang conf_valid coordinateTaken_realValue(1) [OF a(4)] coordinateTaken_realValue(1) [OF a(5)]
    by (simp add: payload_chosen payload_coordinates)
  have "d_reporterId ?data = jsor (p_reporterId ?b) Null"
    by (simp add: submissionData_def issueData_def)
  then have rep: "references (users d) (columnValue (d_reporterId ?data))"
    using a(7) by simp
  from storeIssue_created [OF valid lat lon conf rep a(7)]
  obtain i h where run: "storeIssue e d (p_reporterId ?b) ?data =
           (\<lparr>statusCode = 201, body = IssueJson (Some i)\<rparr>,
            d\<lparr>issues := issues d @ [i], history := history d @ [h]\<rparr>)"
    and h: "h_issueId h = Some (id' i)" "h_status h = Submitted"
    by blast
  then have c: "fst (storeIssue e d (p_reporterId ?b) ?data) = \<lparr>statusCode = 201, body = IssueJson (Some i)\<rparr>"
    by simp
  note f = created_issue_fields(1-3) [OF c]
  have "title i = chosenTitle req"
    using f(1) by (simp add: payload_chosen)
  moreover have "issueTypeEnum (chosenIssueType req) = Some (issueType i)"
    using f(2) by (simp add: payload_chosen)
  moreover have "priorityEnum (chosenPriority req) = priority i"
    using f(3) a(2) by (cases "priorityEnum (chosenPriority req)") (auto simp: payload_chosen)
  ultimately show ?thesis
    using run h by (auto simp: postIssue_def)
qed

subsection \<open>The title\<close>

text \<open>
  Claim C4. The title of the payload, and of the issue the handler creates from it, is the
  first non-empty value among the title of the body, the description of the image
  detection (when the analysis returned: the description of its reply, or \<^verbatim>\<open>Issue detected
  in image\<close>) and the description of the voice extraction (when transcription and extraction
  returned: the description of the reply, or the transcribed text), and \<^verbatim>\<open>New Issue\<close> when
  none is non-empty. For a submission without uploads whose body has a non-empty title,
  issue type and priority, these three fields of the payload are the values of the body,
  and a created issue carries this title and the enum values these labels name.
\<close>

theorem title_is_first_non_empty:
  fixes req :: submission and e :: env and d :: db
  defines "b \<equiv> s_body req"
  shows "d_title (submissionData req) =
           Str (case firstNonEmpty
                       [p_title b,
                        imageField r_description ''Issue detected in image'' (s_photo req),
                        voiceDescription (s_audio req)] of
                  Some s \<Rightarrow> s | None \<Rightarrow> ''New Issue'')
       \<and> (\<forall>i. fst (postIssue e d req) = \<lparr>statusCode = 201, body = IssueJson (Some i)\<rparr> \<longrightarrow>
            title i =
              (case firstNonEmpty
                       [p_title b,
                        imageField r_description ''Issue detected in image'' (s_photo req),
                        voiceDescription (s_audio req)] of
                  Some s \<Rightarrow> s | None \<Rightarrow> ''New Issue''))
       \<and> (\<forall>t ty pr. s_photo req = None \<and> s_audio req = None
              \<and> p_title b = Str t \<and> t \<noteq> [] \<and> p_issueType b = Str ty \<and> ty \<noteq> []
              \<and> p_priority b = Str pr \<and> pr \<noteq> [] \<longrightarrow>
            d_title (submissionData req) = Str t
            \<and> d_issueType (submissionData req) = Str ty
            \<and> d_priority (submissionData req) = Str pr
            \<and> (\<forall>i. fst (postIssue e d req) = \<lparr>statusCode = 201, body = IssueJson (Some i)\<rparr> \<longrightarrow>
                  title i = t \<and> issueTypeEnum ty = Some (issueType i)
                  \<and> priorityEnum pr = priority i \<and> priority i \<noteq> None))"
proof -
  let ?chosen = "case firstNonEmpty
                       [p_title b,
                        imageField r_description ''Issue detected in image'' (s_photo req),
                        voiceDescription (s_audio req)] of
                  Some s \<Rightarrow> s | None \<Rightarrow> ''New Issue''"
  have payload: "d_title (submissionData req) = Str ?chosen"
    unfolding b_def by (simp add: payload_chosen chosenTitle_def firstOr_def)
  have created: "title i = ?chosen"
    if "fst (postIssue e d req) = \<lparr>statusCode = 201, body = IssueJson (Some i)\<rparr>" for i
    using created_issue_fields(1) [OF that [unfolded postIssue_def]] payload by simp
  have explicit: "d_title (submissionData req) = Str t
            \<and> d_issueType (submissionData req) = Str ty
            \<and> d_priority (submissionData req) = Str pr
            \<and> (\<forall>i. fst (postIssue e d req) = \<lparr>statusCode = 201, body = IssueJson (Some i)\<rparr> \<longrightarrow>
                  title i = t \<and> issueTypeEnum ty = Some (issueType i)
                  \<and> priorityEnum pr = priority i \<and> priority i \<noteq> None)"
    if h: "s_photo req = None" "s_audio req = None" "p_title b = Str t" "t \<noteq> []"
      "p_issueType b = Str ty" "ty \<noteq> []" "p_priority b = Str pr" "pr \<noteq> []" for t ty pr
  proof -
    have p: "d_title (submissionData req) = Str t" "d_issueType (submissionData req) = Str ty"
      "d_priority (submissionData req) = Str pr"
      using h unfolding b_def
      by (simp_all add: payload_chosen chosenTitle_def chosenIssueType_def chosenPriority_def firstOr_def)
    have "title i = t \<and> issueTypeEnum ty = Some (issueType i)
                  \<and> priorityEnum pr = priority i \<and> priority i \<noteq> None"
      if c: "fst (postIssue e d req) = \<lparr>statusCode = 201, body = IssueJson (Some i)\<rparr>" for i
    proof -
      note f = created_issue_fields(1-3) [OF c [unfolded postIssue_def]]
      from f(1) p(1) have "title i = t" by simp
      moreover from f(2) p(2) have "issueTypeEnum ty = Some (issueType i)" by simp
      moreover from f(3) p(3) have "priorityEnum pr = priority i \<and> priority i \<noteq> None"
        by (cases "priorityEnum pr") (auto dest: sym)
      ultimately show ?thesis by simp
    qed
    with p show ?thesis by blast
  qed
  from payload created explicit show ?thesis by blast
qed

lemma example_requests_acceptable:
  "acceptable env0 db0 lampRequest"
  "acceptable env0 db0 emptyRequest"
  "acceptable env0 db0 zeroConfidenceRequest"
  "acceptable env0 db0 failedAiRequest"
  "acceptable env0 db0 voiceRequest"
  "acceptable env0 db0 urgentRequest"
  "acceptable env0 db0 gpsRequest"
  "acceptable env0 db0 preciseRequest"
  by (simp_all add: preciseRequest_def latitude_example confidence_example acceptable_def chosenIssueType_def chosenPriority_def firstOr_def voiceIssueType_def
      voicePriority_def voiceResult_def lampRequest_def emptyRequest_def zeroConfidenceRequest_def
      failedAiRequest_def voiceRequest_def voiceReplies_def urgentRequest_def urgentReplies_def gpsRequest_def
      potholeReply_def emptyBody_def env0_def db0_def emptyOrLabel_def jsor_def clamp01_def
      issueTypeEnum_def priorityEnum_def parseFloat_examples realColumn_examples)

theorem title_is_first_non_empty_witness:
  "d_title (submissionData lampRequest) = Str ''Broken lamp''
   \<and> d_issueType (submissionData lampRequest) = Str ''streetlight''
   \<and> d_priority (submissionData lampRequest) = Str ''high''
   \<and> (\<exists>i. fst (postIssue env0 db0 lampRequest) = \<lparr>statusCode = 201, body = IssueJson (Some i)\<rparr>
          \<and> title i = ''Broken lamp'' \<and> issueType i = Streetlight \<and> priority i = Some High)
   \<and> d_title (submissionData potholeRequest) = Str ''Large pothole''
   \<and> d_title (submissionData voiceRequest) = Str ''Garbage pile''
   \<and> d_title (submissionData emptyRequest) = Str ''New Issue''"
proof -
  have h: "s_photo lampRequest = None \<and> s_audio lampRequest = None
      \<and> p_title (s_body lampRequest) = Str ''Broken lamp'' \<and> ''Broken lamp'' \<noteq> []
      \<and> p_issueType (s_body lampRequest) = Str ''streetlight'' \<and> ''streetlight'' \<noteq> []
      \<and> p_priority (s_body lampRequest) = Str ''high'' \<and> ''high'' \<noteq> []"
    by (simp add: lampRequest_def emptyBody_def)
  note t = title_is_first_non_empty [of lampRequest env0 db0]
  from t h have p: "d_title (submissionData lampRequest) = Str ''Broken lamp''"
    "d_issueType (submissionData lampRequest) = Str ''streetlight''"
    "d_priority (submissionData lampRequest) = Str ''high''"
    by blast+
  from created_when_acceptable [OF example_requests_acceptable(1)]
  obtain i where c: "fst (postIssue env0 db0 lampRequest) = \<lparr>statusCode = 201, body = IssueJson (Some i)\<rparr>"
    by auto
  from t h c have "title i = ''Broken lamp'' \<and> issueTypeEnum ''streetlight'' = Some (issueType i)
      \<and> priorityEnum ''high'' = priority i"
    by blast
  then have "title i = ''Broken lamp'' \<and> issueType i = Streetlight \<and> priority i = Some High"
    by (simp add: issueTypeEnum_def priorityEnum_def)
  with c have lamp: "\<exists>i. fst (postIssue env0 db0 lampRequest) = \<lparr>statusCode = 201, body = IssueJson (Some i)\<rparr>
          \<and> title i = ''Broken lamp'' \<and> issueType i = Streetlight \<and> priority i = Some High"
    by blast
  from title_is_first_non_empty [of potholeRequest env0 db0]
  have 1: "d_title (submissionData potholeRequest) = Str ''Large pothole''"
    by (simp add: potholeRequest_def potholeReply_def emptyBody_def firstOr_def voiceDescription_def
        voiceResult_def)
  from title_is_first_non_empty [of voiceRequest env0 db0]
  have 2: "d_title (submissionData voiceRequest) = Str ''Garbage pile''"
    by (simp add: voiceRequest_def voiceReplies_def emptyBody_def firstOr_def voiceDescription_def
        voiceResult_def)
  from title_is_first_non_empty [of emptyRequest env0 db0]
  have 3: "d_title (submissionData emptyRequest) = Str ''New Issue''"
    by (simp add: emptyRequest_def emptyBody_def voiceDescription_def voiceResult_def)
  from p lamp 1 2 3 show ?thesis by simp
qed

subsection \<open>The description\<close>

lemma description_chain:
  "(case firstNonEmpty [a, b, c] of
      Some s \<Rightarrow> jsor a (jsor b c) = Str s
    | None \<Rightarrow> jsor a (jsor b c) = c \<and> \<not> truthy c)"
  by (cases a; cases b; cases c) (simp_all add: jsor_def)

text \<open>
  Claim C5 as stated fails when no candidate is non-empty: for a submission with an empty
  body and no uploads the title is \<^verbatim>\<open>New Issue\<close>, but the description is absent, and the
  created issue has no description.
\<close>

theorem description_has_no_default:
  "d_title (submissionData emptyRequest) = Str ''New Issue''
   \<and> d_description (submissionData emptyRequest) = Undefined
   \<and> d_description (submissionData emptyRequest) \<noteq> Str ''New Issue''
   \<and> (\<exists>i. fst (postIssue env0 db0 emptyRequest) = \<lparr>statusCode = 201, body = IssueJson (Some i)\<rparr>
          \<and> title i = ''New Issue'' \<and> description i = None)"
proof -
  have p: "d_title (submissionData emptyRequest) = Str ''New Issue''"
    "d_description (submissionData emptyRequest) = Undefined"
    by (simp_all add: submissionData_def issueData_def emptyRequest_def emptyBody_def no_uploads jsor_def)
  from created_when_acceptable [OF example_requests_acceptable(2)]
  obtain i where "fst (postIssue env0 db0 emptyRequest) = \<lparr>statusCode = 201, body = IssueJson (Some i)\<rparr>"
    by auto
  then have c: "fst (storeIssue env0 db0 (p_reporterId (s_body emptyRequest)) (submissionData emptyRequest)) =
      \<lparr>statusCode = 201, body = IssueJson (Some i)\<rparr>"
    by (simp add: postIssue_def)
  from created_issue_fields(1,4) [OF c] p have "title i = ''New Issue'' \<and> description i = None"
    by simp
  with p c show ?thesis by (auto simp: postIssue_def)
qed

text \<open>
  Claim C5, amended. The description of the payload is the first non-empty value among
  the description of the body, the description of the image detection and the description
  of the voice extraction. When none is non-empty there is no default: the description is
  what the voice extraction gave, which is then absent or empty. A created issue stores
  the description of the payload, NULL when it is absent.
\<close>

theorem description_is_first_non_empty_or_empty:
  fixes req :: submission and e :: env and d :: db
  defines "b \<equiv> s_body req"
  defines "ai \<equiv> processPhoto (s_photo req)"
  defines "ex \<equiv> snd (processAudio (s_audio req))"
  shows "(case firstNonEmpty [p_description b, optChain ai det_description, optChain ex ex_description] of
            Some s \<Rightarrow> d_description (submissionData req) = Str s
          | None \<Rightarrow> d_description (submissionData req) = optChain ex ex_description
                   \<and> \<not> truthy (d_description (submissionData req)))
       \<and> (\<forall>i. fst (postIssue e d req) = \<lparr>statusCode = 201, body = IssueJson (Some i)\<rparr> \<longrightarrow>
              description i = columnValue (d_description (submissionData req)))"
proof -
  have "d_description (submissionData req) =
      jsor (p_description b) (jsor (optChain ai det_description) (optChain ex ex_description))"
    unfolding submissionData_def b_def ai_def ex_def by (simp add: issueData_def)
  then have chain: "(case firstNonEmpty [p_description b, optChain ai det_description, optChain ex ex_description] of
            Some s \<Rightarrow> d_description (submissionData req) = Str s
          | None \<Rightarrow> d_description (submissionData req) = optChain ex ex_description
                   \<and> \<not> truthy (d_description (submissionData req)))"
    using description_chain [of "p_description b" "optChain ai det_description" "optChain ex ex_description"]
    by (simp split: option.splits)
  have "description i = columnValue (d_description (submissionData req))"
    if "fst (postIssue e d req) = \<lparr>statusCode = 201, body = IssueJson (Some i)\<rparr>" for i
    using created_issue_fields(4) [OF that [unfolded postIssue_def]] .
  with chain show ?thesis by blast
qed

theorem description_is_first_non_empty_or_empty_witness:
  "d_description (submissionData potholeRequest) = Str ''Large pothole''
   \<and> d_description (submissionData emptyRequest) = Undefined"
proof -
  have 1: "firstNonEmpty [p_description (s_body potholeRequest),
              optChain (processPhoto (s_photo potholeRequest)) det_description,
              optChain (snd (processAudio (s_audio potholeRequest))) ex_description] = Some ''Large pothole''"
    by (simp add: potholeRequest_def potholeReply_def emptyBody_def processPhoto_def analyzeIssueImage_def
        no_uploads jsor_def)
  have 2: "firstNonEmpty [p_description (s_body emptyRequest),
              optChain (processPhoto (s_photo emptyRequest)) det_description,
              optChain (snd (processAudio (s_audio emptyRequest))) ex_description] = None"
    by (simp add: emptyRequest_def emptyBody_def no_uploads)
  have 3: "optChain (snd (processAudio (s_audio emptyRequest))) ex_description = Undefined"
    by (simp add: emptyRequest_def no_uploads)
  from description_is_first_non_empty_or_empty [of potholeRequest env0 db0] 1
  have "d_description (submissionData potholeRequest) = Str ''Large pothole''"
    by simp
  moreover from description_is_first_non_empty_or_empty [of emptyRequest env0 db0] 2 3
  have "d_description (submissionData emptyRequest) = Undefined"
    by simp
  ultimately show ?thesis by simp
qed


subsection \<open>The coordinates\<close>

lemma storeIssue_NaN:
  assumes "d_latitude data = Some NaN \<or> d_longitude data = Some NaN"
  shows "storeIssue e d rep data =
           (\<lparr>statusCode = 500, body = ErrorJson ''Failed to create issue'' ValidationFailed\<rparr>, d)"
proof -
  from assms have "\<not> insertIssueSchema data"
    by (auto simp: insertIssueSchema_def)
  then show ?thesis by (simp add: storeIssue_def)
qed

lemma stored_real:
  assumes "realValue col x = Inr r"
  shows "(x = None \<longrightarrow> r = None) \<and> (\<forall>v. x = Some v \<longrightarrow> (\<exists>y. col v = Inr y \<and> r = Some y))"
  using assms by (auto simp: realValue_cases)

text \<open>
  Claim C6, refuted as worded. The claim gives an unparseable coordinate as null. For the
  latitude \<^verbatim>\<open>abc\<close> the payload holds \<^verbatim>\<open>NaN\<close>, which is not null; the validation rejects it,
  the submission is answered 500 and nothing is written.
\<close>

theorem invalid_latitude_is_not_null:
  "d_latitude (submissionData badLatitudeRequest) = Some NaN
   \<and> d_latitude (submissionData badLatitudeRequest) \<noteq> None
   \<and> postIssue env0 db0 badLatitudeRequest =
       (\<lparr>statusCode = 500, body = ErrorJson ''Failed to create issue'' ValidationFailed\<rparr>, db0)"
proof -
  have p: "d_latitude (submissionData badLatitudeRequest) = Some NaN"
    by (simp add: payload_coordinates coordinate_cases badLatitudeRequest_def emptyBody_def parseFloat_examples)
  from storeIssue_NaN [of "submissionData badLatitudeRequest" env0 db0] p
  show ?thesis by (simp add: postIssue_def)
qed

text \<open>
  Claim C6, amended. A coordinate of the body that is absent, null or the empty string
  gives null in the payload. A non-empty string gives the number \<^verbatim>\<open>parseFloat\<close> reads from
  it, which is \<^verbatim>\<open>NaN\<close> exactly when the string does not start with a decimal literal. A
  payload with a \<^verbatim>\<open>NaN\<close> coordinate is answered 500 and nothing is written. In a created
  issue no coordinate of the payload is \<^verbatim>\<open>NaN\<close>, a null coordinate is stored as NULL, and
  a number is stored as what the \<^verbatim>\<open>real\<close> column gives back for it.
\<close>

theorem coordinates_are_parsed_or_null:
  fixes req :: submission and e :: env and d :: db
  defines "b \<equiv> s_body req" and "data \<equiv> submissionData req"
  shows "(\<not> truthy (p_latitude b) \<longrightarrow> d_latitude data = None)
       \<and> (\<not> truthy (p_longitude b) \<longrightarrow> d_longitude data = None)
       \<and> (\<forall>s. p_latitude b = Str s \<and> s \<noteq> [] \<longrightarrow>
            d_latitude data = Some (parseFloat s) \<and> (parseFloat s = NaN \<longleftrightarrow> \<not> leadingLiteral s))
       \<and> (\<forall>s. p_longitude b = Str s \<and> s \<noteq> [] \<longrightarrow>
            d_longitude data = Some (parseFloat s) \<and> (parseFloat s = NaN \<longleftrightarrow> \<not> leadingLiteral s))
       \<and> (d_latitude data = Some NaN \<or> d_longitude data = Some NaN \<longrightarrow>
            postIssue e d req =
              (\<lparr>statusCode = 500, body = ErrorJson ''Failed to create issue'' ValidationFailed\<rparr>, d))
       \<and> (\<forall>i. fst (postIssue e d req) = \<lparr>statusCode = 201, body = IssueJson (Some i)\<rparr> \<longrightarrow>
            d_latitude data \<noteq> Some NaN \<and> d_longitude data \<noteq> Some NaN
            \<and> (d_latitude data = None \<longrightarrow> latitude i = None)
            \<and> (\<forall>x. d_latitude data = Some x \<longrightarrow> (\<exists>y. e_realColumn e x = Inr y \<and> latitude i = Some y))
            \<and> (d_longitude data = None \<longrightarrow> longitude i = None)
            \<and> (\<forall>x. d_longitude data = Some x \<longrightarrow> (\<exists>y. e_realColumn e x = Inr y \<and> longitude i = Some y)))"
proof -
  have absent: "\<not> truthy (p_latitude b) \<longrightarrow> d_latitude data = None"
    "\<not> truthy (p_longitude b) \<longrightarrow> d_longitude data = None"
    unfolding b_def data_def
    by (simp_all add: payload_coordinates coordinate_def)
  have given: "d_latitude data = Some (parseFloat s) \<and> (parseFloat s = NaN \<longleftrightarrow> \<not> leadingLiteral s)"
    if "p_latitude b = Str s \<and> s \<noteq> []" for s
    using that unfolding b_def data_def
    by (simp add: payload_coordinates coordinate_cases parseFloat_NaN_iff)
  have given': "d_longitude data = Some (parseFloat s) \<and> (parseFloat s = NaN \<longleftrightarrow> \<not> leadingLiteral s)"
    if "p_longitude b = Str s \<and> s \<noteq> []" for s
    using that unfolding b_def data_def
    by (simp add: payload_coordinates coordinate_cases parseFloat_NaN_iff)
  have rejected: "postIssue e d req =
              (\<lparr>statusCode = 500, body = ErrorJson ''Failed to create issue'' ValidationFailed\<rparr>, d)"
    if "d_latitude data = Some NaN \<or> d_longitude data = Some NaN"
    using storeIssue_NaN [OF that [unfolded data_def]] by (simp add: postIssue_def)
  have created: "d_latitude data \<noteq> Some NaN \<and> d_longitude data \<noteq> Some NaN
            \<and> (d_latitude data = None \<longrightarrow> latitude i = None)
            \<and> (\<forall>x. d_latitude data = Some x \<longrightarrow> (\<exists>y. e_realColumn e x = Inr y \<and> latitude i = Some y))
            \<and> (d_longitude data = None \<longrightarrow> longitude i = None)
            \<and> (\<forall>x. d_longitude data = Some x \<longrightarrow> (\<exists>y. e_realColumn e x = Inr y \<and> longitude i = Some y))"
    if c: "fst (postIssue e d req) = \<lparr>statusCode = 201, body = IssueJson (Some i)\<rparr>" for i
  proof -
    note f = created_issue_fields(5,6,8,9) [OF c [unfolded postIssue_def], folded data_def]
    from f(3) have 1: "d_latitude data \<noteq> Some NaN" by auto
    from f(4) have 2: "d_longitude data \<noteq> Some NaN" by auto
    from 1 2 stored_real [OF f(1)] stored_real [OF f(2)] show ?thesis by simp
  qed
  from absent given given' rejected created show ?thesis by blast
qed

theorem coordinates_are_parsed_or_null_witness:
  "d_latitude (submissionData gpsRequest) = Some (Fin (39 / 2))
   \<and> leadingLiteral ''19.5''
   \<and> d_longitude (submissionData gpsRequest) = None
   \<and> (\<exists>i. fst (postIssue env0 db0 gpsRequest) = \<lparr>statusCode = 201, body = IssueJson (Some i)\<rparr>
          \<and> latitude i = Some (Fin (39 / 2)) \<and> longitude i = None)
   \<and> d_latitude (submissionData preciseRequest) = Some (parseFloat ''19.0760123'')
   \<and> (\<exists>i. fst (postIssue env0 db0 preciseRequest) = \<lparr>statusCode = 201, body = IssueJson (Some i)\<rparr>
          \<and> latitude i = Some (parseFloat ''19.076012'')
          \<and> latitude i \<noteq> d_latitude (submissionData preciseRequest))
   \<and> d_latitude (submissionData badLatitudeRequest) = Some NaN
   \<and> \<not> leadingLiteral ''abc''
   \<and> postIssue env0 db0 badLatitudeRequest =
       (\<lparr>statusCode = 500, body = ErrorJson ''Failed to create issue'' ValidationFailed\<rparr>, db0)"
proof -
  note p = coordinates_are_parsed_or_null [of preciseRequest env0 db0]
  have pb: "p_latitude (s_body preciseRequest) = Str ''19.0760123'' \<and> ''19.0760123'' \<noteq> []"
    by (simp add: preciseRequest_def emptyBody_def)
  from p pb have plat: "d_latitude (submissionData preciseRequest) = Some (parseFloat ''19.0760123'')"
    by blast
  from created_when_acceptable [OF example_requests_acceptable(8)]
  obtain j where cj: "fst (postIssue env0 db0 preciseRequest) = \<lparr>statusCode = 201, body = IssueJson (Some j)\<rparr>"
    by auto
  from p cj plat have "\<exists>y. e_realColumn env0 (parseFloat ''19.0760123'') = Inr y \<and> latitude j = Some y"
    by blast
  then have "latitude j = Some (parseFloat ''19.076012'')"
    by (simp add: env0_def latitude_example)
  with plat have "latitude j = Some (parseFloat ''19.076012'')
      \<and> latitude j \<noteq> d_latitude (submissionData preciseRequest)"
    by (simp add: latitude_example)
  with cj have precise: "\<exists>i. fst (postIssue env0 db0 preciseRequest) = \<lparr>statusCode = 201, body = IssueJson (Some i)\<rparr>
          \<and> latitude i = Some (parseFloat ''19.076012'')
          \<and> latitude i \<noteq> d_latitude (submissionData preciseRequest)"
    by blast
  note g = coordinates_are_parsed_or_null [of gpsRequest env0 db0]
  have gb: "p_latitude (s_body gpsRequest) = Str ''19.5'' \<and> ''19.5'' \<noteq> []"
    "\<not> truthy (p_longitude (s_body gpsRequest))"
    by (simp_all add: gpsRequest_def emptyBody_def)
  from g gb(1) have "d_latitude (submissionData gpsRequest) = Some (parseFloat ''19.5'')
      \<and> (parseFloat ''19.5'' = NaN \<longleftrightarrow> \<not> leadingLiteral ''19.5'')"
    by blast
  then have lat: "d_latitude (submissionData gpsRequest) = Some (Fin (39 / 2))" "leadingLiteral ''19.5''"
    by (simp_all add: parseFloat_examples)
  from g gb(2) have lon: "d_longitude (submissionData gpsRequest) = None"
    by blast
  from created_when_acceptable [OF example_requests_acceptable(7)]
  obtain i where c: "fst (postIssue env0 db0 gpsRequest) = \<lparr>statusCode = 201, body = IssueJson (Some i)\<rparr>"
    by auto
  from g c lat(1) have "\<exists>y. e_realColumn env0 (Fin (39 / 2)) = Inr y \<and> latitude i = Some y"
    by blast
  then have 1: "latitude i = Some (Fin (39 / 2))"
    by (simp add: env0_def realColumn_examples)
  from g c lon have 2: "longitude i = None"
    by blast
  from c 1 2 have row: "\<exists>i. fst (postIssue env0 db0 gpsRequest) = \<lparr>statusCode = 201, body = IssueJson (Some i)\<rparr>
          \<and> latitude i = Some (Fin (39 / 2)) \<and> longitude i = None"
    by blast
  note n = coordinates_are_parsed_or_null [of badLatitudeRequest env0 db0]
  have nb: "p_latitude (s_body badLatitudeRequest) = Str ''abc'' \<and> ''abc'' \<noteq> []"
    by (simp add: badLatitudeRequest_def emptyBody_def)
  from n nb have "d_latitude (submissionData badLatitudeRequest) = Some (parseFloat ''abc'')
      \<and> (parseFloat ''abc'' = NaN \<longleftrightarrow> \<not> leadingLiteral ''abc'')"
    by blast
  then have bad: "d_latitude (submissionData badLatitudeRequest) = Some NaN" "\<not> leadingLiteral ''abc''"
    by (simp_all add: parseFloat_examples)
  from n bad(1) have "postIssue env0 db0 badLatitudeRequest =
       (\<lparr>statusCode = 500, body = ErrorJson ''Failed to create issue'' ValidationFailed\<rparr>, db0)"
    by blast
  with lat lon row plat precise bad show ?thesis by simp
qed

subsection \<open>The confidence\<close>

lemma detection_of_reply:
  "processPhoto (Some (Returns raw)) =
     Some \<lparr>det_issueType = jsor (r_issueType raw) (Str ''other''),
           det_confidence = clamp01 (case r_confidence raw of None \<Rightarrow> 0 | Some c \<Rightarrow> c),
           det_description = jsor (r_description raw) (Str ''Issue detected in image''),
           det_severity = jsor (r_severity raw) (Str ''medium''),
           det_suggestedDepartment = jsor (r_suggestedDepartment raw) (Str ''General Services'')\<rparr>"
  by (simp add: processPhoto_def analyzeIssueImage_def clamp01_max_min numberOr_zero)

lemma payload_detection:
  "d_aiDetectionResult (submissionData req) = processPhoto (s_photo req)"
  by (simp add: submissionData_def issueData_def)

text \<open>
  Claim C7, refuted as worded. The claim gives the confidence of a created issue as the
  clamped confidence of the detection. When the analysis returns confidence 0 the issue is
  created with its detection result, whose confidence is 0, and its \<^verbatim>\<open>aiConfidence\<close> is
  NULL.
\<close>

theorem zero_confidence_is_null:
  "\<exists>i r. fst (postIssue env0 db0 zeroConfidenceRequest) = \<lparr>statusCode = 201, body = IssueJson (Some i)\<rparr>
      \<and> aiDetectionResult i = Some r \<and> det_confidence r = 0
      \<and> aiConfidence i = None \<and> aiConfidence i \<noteq> Some (Fin 0)"
proof -
  from created_when_acceptable [OF example_requests_acceptable(3)]
  obtain i where c: "fst (postIssue env0 db0 zeroConfidenceRequest) =
      \<lparr>statusCode = 201, body = IssueJson (Some i)\<rparr>"
    by auto
  note f = created_issue_fields(7,10) [OF c [unfolded postIssue_def]]
  have p: "d_aiConfidence (submissionData zeroConfidenceRequest) = None"
    by (simp add: payload_chosen zeroConfidenceRequest_def clamp01_def)
  from f(1) p have 1: "aiConfidence i = None" by simp
  from f(2) obtain r :: IssueDetectionResult where "aiDetectionResult i = Some r" "det_confidence r = 0"
    by (simp add: payload_detection zeroConfidenceRequest_def detection_of_reply clamp01_def)
  with c 1 show ?thesis by auto
qed

text \<open>
  Claim C7, amended. When the image analysis returns, the detection result has the
  confidence of the reply (0 when the reply has none) clamped to the interval from 0 to 1,
  and the payload's \<^verbatim>\<open>aiConfidence\<close> is this number unless it is 0, when it is null.
  Without a photo, or when the analysis throws, it is null. In a created issue a null
  \<^verbatim>\<open>aiConfidence\<close> is stored as NULL and a number as what the \<^verbatim>\<open>real\<close> column gives back
  for it.
\<close>

theorem aiConfidence_is_clamped_or_null:
  fixes req :: submission and e :: env and d :: db
  defines "data \<equiv> submissionData req"
  shows "(\<forall>raw. s_photo req = Some (Returns raw) \<longrightarrow>
            (\<exists>r. d_aiDetectionResult data = Some r
               \<and> det_confidence r = clamp01 (case r_confidence raw of None \<Rightarrow> 0 | Some c \<Rightarrow> c)
               \<and> 0 \<le> det_confidence r \<and> det_confidence r \<le> 1
               \<and> d_aiConfidence data = (if det_confidence r = 0 then None else Some (det_confidence r))))
       \<and> (s_photo req = None \<or> s_photo req = Some Throws \<longrightarrow>
            d_aiDetectionResult data = None \<and> d_aiConfidence data = None)
       \<and> (\<forall>i. fst (postIssue e d req) = \<lparr>statusCode = 201, body = IssueJson (Some i)\<rparr> \<longrightarrow>
            aiDetectionResult i = d_aiDetectionResult data
            \<and> (d_aiConfidence data = None \<longrightarrow> aiConfidence i = None)
            \<and> (\<forall>c. d_aiConfidence data = Some c \<longrightarrow>
                  (\<exists>y. e_realColumn e (Fin c) = Inr y \<and> aiConfidence i = Some y)))"
proof -
  have returned: "\<exists>r. d_aiDetectionResult data = Some r
               \<and> det_confidence r = clamp01 (case r_confidence raw of None \<Rightarrow> 0 | Some c \<Rightarrow> c)
               \<and> 0 \<le> det_confidence r \<and> det_confidence r \<le> 1
               \<and> d_aiConfidence data = (if det_confidence r = 0 then None else Some (det_confidence r))"
    if "s_photo req = Some (Returns raw)" for raw
    using that unfolding data_def
    by (simp add: payload_detection detection_of_reply payload_chosen clamp01_range)
  have none: "d_aiDetectionResult data = None \<and> d_aiConfidence data = None"
    if "s_photo req = None \<or> s_photo req = Some Throws"
    using that unfolding data_def
    by (auto simp: payload_detection payload_chosen processPhoto_def analyzeIssueImage_def)
  have created: "aiDetectionResult i = d_aiDetectionResult data
            \<and> (d_aiConfidence data = None \<longrightarrow> aiConfidence i = None)
            \<and> (\<forall>c. d_aiConfidence data = Some c \<longrightarrow>
                  (\<exists>y. e_realColumn e (Fin c) = Inr y \<and> aiConfidence i = Some y))"
    if c: "fst (postIssue e d req) = \<lparr>statusCode = 201, body = IssueJson (Some i)\<rparr>" for i
  proof -
    note f = created_issue_fields(7,10) [OF c [unfolded postIssue_def], folded data_def]
    from stored_real [OF f(1)] f(2) show ?thesis by simp
  qed
  from returned none created show ?thesis by blast
qed

theorem aiConfidence_is_clamped_or_null_witness:
  "d_aiConfidence (submissionData urgentRequest) = Some (3 / 4)
   \<and> (\<exists>i. fst (postIssue env0 db0 urgentRequest) = \<lparr>statusCode = 201, body = IssueJson (Some i)\<rparr>
          \<and> aiConfidence i = Some (Fin (3 / 4)))
   \<and> d_aiConfidence (submissionData (potholeRequest\<lparr>s_photo := Some (Returns (potholeReply\<lparr>r_confidence := Some 7\<rparr>))\<rparr>))
       = Some 1
   \<and> d_aiConfidence (submissionData zeroConfidenceRequest) = None
   \<and> d_aiConfidence (submissionData failedAiRequest) = None
   \<and> (\<exists>i. fst (postIssue env0 db0 failedAiRequest) = \<lparr>statusCode = 201, body = IssueJson (Some i)\<rparr>
          \<and> aiConfidence i = None)
   \<and> map_option Fin (d_aiConfidence (submissionData preciseRequest)) = Some (parseFloat ''0.123456789'')
   \<and> (\<exists>i. fst (postIssue env0 db0 preciseRequest) = \<lparr>statusCode = 201, body = IssueJson (Some i)\<rparr>
          \<and> aiConfidence i = Some (parseFloat ''0.12345679''))"
proof -
  note p = aiConfidence_is_clamped_or_null [of preciseRequest env0 db0]
  have "s_photo preciseRequest =
      Some (Returns (potholeReply\<lparr>r_confidence := Some (8895999182988127 / 72057594037927936)\<rparr>))"
    by (simp add: preciseRequest_def)
  with p have pc: "d_aiConfidence (submissionData preciseRequest) = Some (8895999182988127 / 72057594037927936)"
    by (auto simp: clamp01_def)
  then have 7: "map_option Fin (d_aiConfidence (submissionData preciseRequest)) = Some (parseFloat ''0.123456789'')"
    by (simp add: confidence_example)
  from created_when_acceptable [OF example_requests_acceptable(8)]
  obtain k where ck: "fst (postIssue env0 db0 preciseRequest) = \<lparr>statusCode = 201, body = IssueJson (Some k)\<rparr>"
    by auto
  from p ck pc have "\<exists>y. e_realColumn env0 (Fin (8895999182988127 / 72057594037927936)) = Inr y
      \<and> aiConfidence k = Some y"
    by blast
  then have "aiConfidence k = Some (parseFloat ''0.12345679'')"
    by (simp add: env0_def confidence_example)
  with ck have 8: "\<exists>i. fst (postIssue env0 db0 preciseRequest) = \<lparr>statusCode = 201, body = IssueJson (Some i)\<rparr>
          \<and> aiConfidence i = Some (parseFloat ''0.12345679'')"
    by blast
  note u = aiConfidence_is_clamped_or_null [of urgentRequest env0 db0]
  have "s_photo urgentRequest = Some (Returns (potholeReply\<lparr>r_confidence := Some (3 / 4)\<rparr>))"
    by (simp add: urgentRequest_def)
  with u have 1: "d_aiConfidence (submissionData urgentRequest) = Some (3 / 4)"
    by (auto simp: clamp01_def)
  from created_when_acceptable [OF example_requests_acceptable(6)]
  obtain i where c: "fst (postIssue env0 db0 urgentRequest) = \<lparr>statusCode = 201, body = IssueJson (Some i)\<rparr>"
    by auto
  from u c 1 have "\<exists>y. e_realColumn env0 (Fin (3 / 4)) = Inr y \<and> aiConfidence i = Some y"
    by blast
  then have "aiConfidence i = Some (Fin (3 / 4))"
    by (simp add: env0_def realColumn_examples)
  with c have 2: "\<exists>i. fst (postIssue env0 db0 urgentRequest) = \<lparr>statusCode = 201, body = IssueJson (Some i)\<rparr>
          \<and> aiConfidence i = Some (Fin (3 / 4))"
    by blast
  from aiConfidence_is_clamped_or_null
         [of "potholeRequest\<lparr>s_photo := Some (Returns (potholeReply\<lparr>r_confidence := Some 7\<rparr>))\<rparr>" env0 db0]
  have 3: "d_aiConfidence (submissionData (potholeRequest\<lparr>s_photo := Some (Returns (potholeReply\<lparr>r_confidence := Some 7\<rparr>))\<rparr>))
       = Some 1"
    by (auto simp: clamp01_def)
  have "s_photo zeroConfidenceRequest = Some (Returns (potholeReply\<lparr>r_confidence := Some 0\<rparr>))"
    by (simp add: zeroConfidenceRequest_def)
  with aiConfidence_is_clamped_or_null [of zeroConfidenceRequest env0 db0]
  have 4: "d_aiConfidence (submissionData zeroConfidenceRequest) = None"
    by (auto simp: clamp01_def)
  note f = aiConfidence_is_clamped_or_null [of failedAiRequest env0 db0]
  have "s_photo failedAiRequest = Some Throws"
    by (simp add: failedAiRequest_def)
  with f have 5: "d_aiConfidence (submissionData failedAiRequest) = None"
    by blast
  from created_when_acceptable [OF example_requests_acceptable(4)]
  obtain j where cj: "fst (postIssue env0 db0 failedAiRequest) = \<lparr>statusCode = 201, body = IssueJson (Some j)\<rparr>"
    by auto
  from f cj 5 have "aiConfidence j = None"
    by blast
  with cj have 6: "\<exists>i. fst (postIssue env0 db0 failedAiRequest) = \<lparr>statusCode = 201, body = IssueJson (Some i)\<rparr>
          \<and> aiConfidence i = None"
    by blast
  from 1 2 3 4 5 6 7 8 show ?thesis by simp
qed

subsection \<open>Failing AI calls\<close>

lemma photo_throws: "processPhoto (Some Throws) = processPhoto None"
  by (simp add: processPhoto_def analyzeIssueImage_def)

lemma transcription_throws:
  "a_transcription a = Throws \<Longrightarrow> processAudio (Some a) = processAudio None"
  by (simp add: processAudio_def transcribeAudio_def)

lemma extraction_throws:
  "a_transcription a = Returns (tx, lang) \<Longrightarrow> a_extraction a = Throws \<Longrightarrow>
     processAudio (Some a) = (Str tx, None)"
  by (simp add: processAudio_def transcribeAudio_def extractIssueFromText_def)

text \<open>
  Claim C8, refuted as worded. The claim has the submission proceed when an AI call
  fails. A submission with an empty body, a photo and an audio file whose extraction
  returns the priority \<^verbatim>\<open>urgent\<close> is created when the image analysis returns, since the
  priority is then the severity of the image. When the image analysis throws, the priority
  falls back to \<^verbatim>\<open>urgent\<close>, the validation rejects it, and the submission is answered 500
  with nothing written.
\<close>

theorem failed_analysis_fails_submission:
  "statusCode (fst (postIssue env0 db0 urgentRequest)) = 201
   \<and> d_priority (submissionData urgentRequest) = Str ''high''
   \<and> d_priority (submissionData (urgentRequest\<lparr>s_photo := Some Throws\<rparr>)) = Str ''urgent''
   \<and> postIssue env0 db0 (urgentRequest\<lparr>s_photo := Some Throws\<rparr>) =
       (\<lparr>statusCode = 500, body = ErrorJson ''Failed to create issue'' ValidationFailed\<rparr>, db0)"
proof -
  from created_when_acceptable [OF example_requests_acceptable(6)]
  have 1: "statusCode (fst (postIssue env0 db0 urgentRequest)) = 201"
    by auto
  have 2: "d_priority (submissionData urgentRequest) = Str ''high''"
    by (simp add: payload_chosen chosenPriority_def firstOr_def urgentRequest_def potholeReply_def emptyBody_def)
  have 3: "d_priority (submissionData (urgentRequest\<lparr>s_photo := Some Throws\<rparr>)) = Str ''urgent''"
    by (simp add: payload_chosen chosenPriority_def firstOr_def urgentRequest_def urgentReplies_def emptyBody_def
        voicePriority_def voiceResult_def)
  then have "\<not> insertIssueSchema (submissionData (urgentRequest\<lparr>s_photo := Some Throws\<rparr>))"
    by (simp add: insertIssueSchema_def priorityEnum_def)
  then have 4: "postIssue env0 db0 (urgentRequest\<lparr>s_photo := Some Throws\<rparr>) =
       (\<lparr>statusCode = 500, body = ErrorJson ''Failed to create issue'' ValidationFailed\<rparr>, db0)"
    by (simp add: postIssue_def storeIssue_def)
  from 1 2 3 4 show ?thesis by simp
qed

text \<open>
  Claim C8, amended. A failing AI call is caught: a photo whose analysis throws is handled
  as no photo, an audio file whose transcription throws as no audio file, and when the
  extraction throws after the transcription returned the payload is that of a submission
  without audio file, except that it keeps the transcribed text. Each fused field of the
  payload is then the first non-empty value among the values that are left in its chain,
  or the default of the chain. The submission is created, with a first history row of
  status \<^verbatim>\<open>submitted\<close>, when these values are acceptable: the issue type and the priority
  are labels of their enums, the language is empty or a label, the coordinates and the
  confidence are numbers the schema and the columns take, and the reporter is empty or a
  user.
\<close>

theorem ai_failure_does_not_fail_submission:
  fixes req :: submission and e :: env and d :: db
  defines "b \<equiv> s_body req"
  shows "(s_photo req = Some Throws \<longrightarrow> postIssue e d req = postIssue e d (req\<lparr>s_photo := None\<rparr>))
       \<and> (\<forall>a. s_audio req = Some a \<and> a_transcription a = Throws \<longrightarrow>
            postIssue e d req = postIssue e d (req\<lparr>s_audio := None\<rparr>))
       \<and> (\<forall>a tx lang. s_audio req = Some a \<and> a_transcription a = Returns (tx, lang)
              \<and> a_extraction a = Throws \<longrightarrow>
            submissionData req = (submissionData (req\<lparr>s_audio := None\<rparr>))\<lparr>d_transcription := Str tx\<rparr>)
       \<and> d_title (submissionData req) =
           Str (firstOr [p_title b, imageField r_description ''Issue detected in image'' (s_photo req),
                         voiceDescription (s_audio req)] ''New Issue'')
       \<and> d_issueType (submissionData req) =
           Str (firstOr [p_issueType b, imageField r_issueType ''other'' (s_photo req),
                         voiceIssueType (s_audio req)] ''other'')
       \<and> d_priority (submissionData req) =
           Str (firstOr [p_priority b, imageField r_severity ''medium'' (s_photo req),
                         voicePriority (s_audio req)] ''medium'')
       \<and> d_location (submissionData req) =
           Str (firstOr [p_location b, voiceLocation (s_audio req)] '''')
       \<and> d_assignedDepartment (submissionData req) =
           Str (firstOr [p_assignedDepartment b,
                         imageField r_suggestedDepartment ''General Services'' (s_photo req)] '''')
       \<and> (acceptable e d req \<longrightarrow>
            (\<exists>i h. postIssue e d req =
                     (\<lparr>statusCode = 201, body = IssueJson (Some i)\<rparr>,
                      d\<lparr>issues := issues d @ [i], history := history d @ [h]\<rparr>)
                 \<and> h_issueId h = Some (id' i) \<and> h_status h = Submitted
                 \<and> d_title (submissionData req) = Str (title i)
                 \<and> (\<exists>ty. d_issueType (submissionData req) = Str ty \<and> issueTypeEnum ty = Some (issueType i))
                 \<and> (\<exists>pr. d_priority (submissionData req) = Str pr \<and> priorityEnum pr = priority i)))"
proof -
  have photo: "postIssue e d req = postIssue e d (req\<lparr>s_photo := None\<rparr>)"
    if "s_photo req = Some Throws"
    using that by (simp add: postIssue_def submissionData_def photo_throws)
  have transcription: "postIssue e d req = postIssue e d (req\<lparr>s_audio := None\<rparr>)"
    if "s_audio req = Some a \<and> a_transcription a = Throws" for a
    using that by (simp add: postIssue_def submissionData_def transcription_throws)
  have extraction: "submissionData req = (submissionData (req\<lparr>s_audio := None\<rparr>))\<lparr>d_transcription := Str tx\<rparr>"
    if "s_audio req = Some a \<and> a_transcription a = Returns (tx, lang) \<and> a_extraction a = Throws"
    for a tx lang
  proof -
    from that have "processAudio (s_audio req) = (Str tx, None)"
      by (simp add: extraction_throws)
    moreover have "processAudio None = (Null, None)"
      by (simp add: processAudio_def)
    ultimately show ?thesis
      by (simp add: submissionData_def issueData_def)
  qed
  note chains = payload_chosen(1-5) [of req, unfolded chosenTitle_def chosenIssueType_def chosenPriority_def
      chosenLocation_def chosenDepartment_def, folded b_def]
  have created: "\<exists>i h. postIssue e d req =
                     (\<lparr>statusCode = 201, body = IssueJson (Some i)\<rparr>,
                      d\<lparr>issues := issues d @ [i], history := history d @ [h]\<rparr>)
                 \<and> h_issueId h = Some (id' i) \<and> h_status h = Submitted
                 \<and> d_title (submissionData req) = Str (title i)
                 \<and> (\<exists>ty. d_issueType (submissionData req) = Str ty \<and> issueTypeEnum ty = Some (issueType i))
                 \<and> (\<exists>pr. d_priority (submissionData req) = Str pr \<and> priorityEnum pr = priority i)"
    if "acceptable e d req"
  proof -
    from created_when_acceptable [OF that] obtain i h where
      c: "postIssue e d req =
            (\<lparr>statusCode = 201, body = IssueJson (Some i)\<rparr>,
             d\<lparr>issues := issues d @ [i], history := history d @ [h]\<rparr>)"
        "h_issueId h = Some (id' i)" "h_status h = Submitted"
        "title i = chosenTitle req"
        "issueTypeEnum (chosenIssueType req) = Some (issueType i)"
        "priorityEnum (chosenPriority req) = priority i"
      by blast
    from c(4) have 1: "d_title (submissionData req) = Str (title i)"
      by (simp add: payload_chosen)
    from c(5) have 2: "\<exists>ty. d_issueType (submissionData req) = Str ty \<and> issueTypeEnum ty = Some (issueType i)"
      by (simp add: payload_chosen)
    from c(6) have 3: "\<exists>pr. d_priority (submissionData req) = Str pr \<and> priorityEnum pr = priority i"
      by (simp add: payload_chosen)
    from c(1-3) 1 2 3 show ?thesis by blast
  qed
  from photo transcription extraction chains created show ?thesis by blast
qed

theorem ai_failure_does_not_fail_submission_witness:
  "(\<exists>i. fst (postIssue env0 db0 failedAiRequest) = \<lparr>statusCode = 201, body = IssueJson (Some i)\<rparr>
       \<and> title i = ''Broken lamp'' \<and> issueType i = Other \<and> priority i = Some Medium)
   \<and> postIssue env0 db0 failedAiRequest = postIssue env0 db0 (failedAiRequest\<lparr>s_audio := None\<rparr>)
   \<and> postIssue env0 db0 voiceRequest = postIssue env0 db0 (voiceRequest\<lparr>s_photo := None\<rparr>)
   \<and> (\<exists>i. fst (postIssue env0 db0 voiceRequest) = \<lparr>statusCode = 201, body = IssueJson (Some i)\<rparr>
       \<and> title i = ''Garbage pile'' \<and> issueType i = Garbage \<and> priority i = Some Low)
   \<and> d_transcription (submissionData (voiceRequest\<lparr>s_audio := Some (voiceReplies\<lparr>a_extraction := Throws\<rparr>)\<rparr>))
       = Str ''there is garbage near the gate''
   \<and> d_title (submissionData (voiceRequest\<lparr>s_audio := Some (voiceReplies\<lparr>a_extraction := Throws\<rparr>)\<rparr>))
       = Str ''New Issue''"
proof -
  note f = ai_failure_does_not_fail_submission [of failedAiRequest env0 db0]
  have fh: "s_audio failedAiRequest = Some \<lparr>a_transcription = Throws, a_extraction = Throws\<rparr>
      \<and> a_transcription \<lparr>a_transcription = Throws, a_extraction = Throws\<rparr> = Throws"
    by (simp add: failedAiRequest_def)
  from f fh have 2: "postIssue env0 db0 failedAiRequest = postIssue env0 db0 (failedAiRequest\<lparr>s_audio := None\<rparr>)"
    by blast
  from f have fp: "d_title (submissionData failedAiRequest) = Str ''Broken lamp''"
    "d_issueType (submissionData failedAiRequest) = Str ''other''"
    "d_priority (submissionData failedAiRequest) = Str ''medium''"
    by (simp_all add: failedAiRequest_def emptyBody_def firstOr_def voiceDescription_def voiceIssueType_def
        voicePriority_def voiceResult_def)
  from f example_requests_acceptable(4) obtain i where
    c: "fst (postIssue env0 db0 failedAiRequest) = \<lparr>statusCode = 201, body = IssueJson (Some i)\<rparr>"
      "d_title (submissionData failedAiRequest) = Str (title i)"
      "\<exists>ty. d_issueType (submissionData failedAiRequest) = Str ty \<and> issueTypeEnum ty = Some (issueType i)"
      "\<exists>pr. d_priority (submissionData failedAiRequest) = Str pr \<and> priorityEnum pr = priority i"
    by auto
  from c(2-4) fp have "title i = ''Broken lamp'' \<and> issueType i = Other \<and> priority i = Some Medium"
    by (auto simp: issueTypeEnum_def priorityEnum_def)
  with c(1) have 1: "\<exists>i. fst (postIssue env0 db0 failedAiRequest) = \<lparr>statusCode = 201, body = IssueJson (Some i)\<rparr>
       \<and> title i = ''Broken lamp'' \<and> issueType i = Other \<and> priority i = Some Medium"
    by blast
  note v = ai_failure_does_not_fail_submission [of voiceRequest env0 db0]
  have "s_photo voiceRequest = Some Throws"
    by (simp add: voiceRequest_def)
  with v have 3: "postIssue env0 db0 voiceRequest = postIssue env0 db0 (voiceRequest\<lparr>s_photo := None\<rparr>)"
    by blast
  from v have vp: "d_title (submissionData voiceRequest) = Str ''Garbage pile''"
    "d_issueType (submissionData voiceRequest) = Str ''garbage''"
    "d_priority (submissionData voiceRequest) = Str ''low''"
    by (simp_all add: voiceRequest_def voiceReplies_def emptyBody_def firstOr_def voiceDescription_def
        voiceIssueType_def voicePriority_def voiceResult_def)
  from v example_requests_acceptable(5) obtain j where
    cj: "fst (postIssue env0 db0 voiceRequest) = \<lparr>statusCode = 201, body = IssueJson (Some j)\<rparr>"
      "d_title (submissionData voiceRequest) = Str (title j)"
      "\<exists>ty. d_issueType (submissionData voiceRequest) = Str ty \<and> issueTypeEnum ty = Some (issueType j)"
      "\<exists>pr. d_priority (submissionData voiceRequest) = Str pr \<and> priorityEnum pr = priority j"
    by auto
  from cj(2-4) vp have "title j = ''Garbage pile'' \<and> issueType j = Garbage \<and> priority j = Some Low"
    by (auto simp: issueTypeEnum_def priorityEnum_def)
  with cj(1) have 4: "\<exists>i. fst (postIssue env0 db0 voiceRequest) = \<lparr>statusCode = 201, body = IssueJson (Some i)\<rparr>
       \<and> title i = ''Garbage pile'' \<and> issueType i = Garbage \<and> priority i = Some Low"
    by blast
  let ?x = "voiceRequest\<lparr>s_audio := Some (voiceReplies\<lparr>a_extraction := Throws\<rparr>)\<rparr>"
  note x = ai_failure_does_not_fail_submission [of ?x env0 db0]
  have "s_audio ?x = Some (voiceReplies\<lparr>a_extraction := Throws\<rparr>)
      \<and> a_transcription (voiceReplies\<lparr>a_extraction := Throws\<rparr>) = Returns (''there is garbage near the gate'', Str ''en'')
      \<and> a_extraction (voiceReplies\<lparr>a_extraction := Throws\<rparr>) = Throws"
    by (simp add: voiceReplies_def)
  with x have "submissionData ?x =
      (submissionData (?x\<lparr>s_audio := None\<rparr>))\<lparr>d_transcription := Str ''there is garbage near the gate''\<rparr>"
    by blast
  then have 5: "d_transcription (submissionData ?x) = Str ''there is garbage near the gate''"
    by simp
  from x [THEN conjunct2, THEN conjunct2, THEN conjunct2, THEN conjunct1]
  have 6: "d_title (submissionData ?x) = Str ''New Issue''"
    by (simp add: voiceRequest_def voiceReplies_def emptyBody_def firstOr_def voiceDescription_def voiceResult_def)
  from 1 2 3 4 5 6 show ?thesis by simp
qed

end
